theory Spec2Isabelle
  imports Main
begin

section \<open>Reading Dymola-formatted results: a model of \<open>modelicares/_io/dymola.py\<close>\<close>

text \<open>
  The module is Python 2 code (it uses \<open>f.next()\<close> and the operator \<open><>\<close>), so
  \<open>PY2\<close> is true: a \<open>str\<close> is a byte string, which is what \<open>string\<close> is here.
  The elements of a float array are of an arbitrary type \<open>'a\<close> that has a unary
  minus, a product and a one; no law of arithmetic is assumed of them, so what is
  proved holds of IEEE doubles as of any other reading.
\<close>

subsection \<open>Exceptions\<close>

datatype error =
    IOError string
  | TypeError string
  | AssertionError string
  | KeyError string
  | IndexError
  | ValueError string
  | AttributeError
  | NameError string
  | StopIteration
  | UnicodeDecodeError

subsection \<open>Python sequences\<close>

text \<open>\<open>xs[i]\<close>: a negative index counts from the end; out of range raises.\<close>

definition norm_index :: "nat \<Rightarrow> int \<Rightarrow> nat option" where
  "norm_index n i =
     (if 0 \<le> i \<and> i < int n then Some (nat i)
      else if i < 0 \<and> - int n \<le> i then Some (nat (int n + i))
      else None)"

definition getitem :: "'a list \<Rightarrow> int \<Rightarrow> error + 'a" where
  "getitem xs i =
     (case norm_index (length xs) i of
        None \<Rightarrow> Inl IndexError
      | Some k \<Rightarrow> Inr (xs ! k))"

text \<open>The bound of a slice: negative counts from the end, then clipped to the sequence.\<close>

definition slice_bound :: "nat \<Rightarrow> int \<Rightarrow> nat" where
  "slice_bound n i = (if i < 0 then nat (int n + i) else min (nat i) n)"

text \<open>\<open>xs[:hi]\<close>, \<open>xs[lo:]\<close> and \<open>xs[lo:hi]\<close>.\<close>

definition slice_to :: "int \<Rightarrow> 'a list \<Rightarrow> 'a list" where
  "slice_to hi xs = take (slice_bound (length xs) hi) xs"

definition slice_from :: "int \<Rightarrow> 'a list \<Rightarrow> 'a list" where
  "slice_from lo xs = drop (slice_bound (length xs) lo) xs"

definition slice_between :: "int \<Rightarrow> int \<Rightarrow> 'a list \<Rightarrow> 'a list" where
  "slice_between lo hi xs =
     drop (slice_bound (length xs) lo) (take (slice_bound (length xs) hi) xs)"

subsection \<open>Samples\<close>

text \<open>
  \<open>Samples\<close> is a namedtuple of \<open>times\<close>, \<open>signed_values\<close> and \<open>negated\<close>; the type
  of the two arrays is a parameter, for they are lists of numbers when a variable
  is looked at alone and references into the loaded matrices in \<open>readsim\<close>.
\<close>

record 'arr Samples =
  times_arr :: 'arr
  signed_values :: 'arr
  negated :: bool

text \<open>The negation of an array is element-wise.\<close>

definition neg_array :: "('a::uminus) list \<Rightarrow> 'a list" where
  "neg_array xs = map uminus xs"

text \<open>The property \<open>values\<close>.\<close>

definition Samples_values :: "('a::uminus) list Samples \<Rightarrow> 'a list" where
  "Samples_values self =
     (if negated self then neg_array (signed_values self) else signed_values self)"

subsection \<open>Strings\<close>

text \<open>\<open>s.rstrip(cs)\<close> removes every trailing character that is in \<open>cs\<close>.\<close>

definition rstrip_chars :: "string \<Rightarrow> string \<Rightarrow> string" where
  "rstrip_chars cs s = rev (dropWhile (\<lambda>c. c \<in> set cs) (rev s))"

text \<open>The whitespace of a byte string: space, tab, line feed, VT, FF and CR.\<close>

definition whitespace :: string where
  "whitespace = [CHR '' '', CHR 0x09, CHR 0x0A, CHR 0x0B, CHR 0x0C, CHR 0x0D]"

definition rstrip :: "string \<Rightarrow> string" where
  "rstrip s = rstrip_chars whitespace s"

text \<open>
  \<open>s.rsplit(sep, 1)\<close> for a separator of one character: the parts before and after
  the last \<open>sep\<close>, or \<open>s\<close> alone when it has none.
\<close>

definition rsplit1 :: "char \<Rightarrow> string \<Rightarrow> string list" where
  "rsplit1 sep s =
     (if sep \<in> set s
      then [rev (tl (dropWhile (\<lambda>c. c \<noteq> sep) (rev s))), rev (takeWhile (\<lambda>c. c \<noteq> sep) (rev s))]
      else [s])"

text \<open>
  \<open>s.replace(old, new)\<close>: the occurrences of \<open>old\<close> are replaced from the left,
  without overlap. The module calls it with the patterns \<open>'.'\<close> and \<open>'Ohm'\<close>; an
  empty pattern, which Python treats apart, is left out.
\<close>

function replace :: "string \<Rightarrow> string \<Rightarrow> string \<Rightarrow> string" where
  "replace old new s =
     (if s = [] \<or> old = [] then s
      else if take (length old) s = old then new @ replace old new (drop (length old) s)
      else hd s # replace old new (tl s))"
  by pat_completeness auto
termination
  by (relation "measure (\<lambda>(old, new, s). length s)") auto

declare replace.simps [simp del]

subsection \<open>The description of a variable\<close>

text \<open>
  \<open>parse_description\<close>, the local function of \<open>readsim\<close>. Two things it calls are
  not of this repository and are parameters: \<open>units\<close> is
  \<open>U._units(**Exponents(unit))\<close> of natu, from the unit string to a unit, and
  \<open>decode\<close> is \<open>description.decode('utf-8')\<close>. Both may raise.
\<close>

definition parse_description ::
  "(string \<Rightarrow> error + 'u) \<Rightarrow> (string \<Rightarrow> error + 'd) \<Rightarrow> string \<Rightarrow> error + ('u \<times> string \<times> 'd)" where
  "parse_description units decode description0 =
     (let description1 = rstrip_chars '']'' description0;
          displayUnit0 = [];
          (description2, unit1, displayUnit) =
            (case rsplit1 (CHR ''['') description1 of
               [d, u] \<Rightarrow>
                 (let u' = replace ''Ohm'' ''ohm'' (replace ''.'' ''*'' u)
                  in case rsplit1 (CHR ''|'') u' of
                       [a, b] \<Rightarrow> (d, a, b)
                     | _ \<Rightarrow> (d, u', displayUnit0))
             | _ \<Rightarrow> (description1, [], displayUnit0));
          display_unit = (if displayUnit \<noteq> [] then displayUnit else unit1)
      in case units unit1 of
           Inl e \<Rightarrow> Inl e
         | Inr unit \<Rightarrow>
             (case decode (rstrip description2) of
                Inl e \<Rightarrow> Inl e
              | Inr description3 \<Rightarrow> Inr (unit, display_unit, description3)))"

subsection \<open>Arrays and loaded matrices\<close>

text \<open>
  A numpy array as far as this module meets it: \<open>Arr2 r c rows\<close> is a 2-D array
  of shape \<open>(r, c)\<close> given by its rows, \<open>Arr1\<close> is a 1-D array, and \<open>ArrObj\<close> is the
  1-D array of objects that \<open>np.array\<close> makes of rows of different lengths. The
  shape is kept apart from the rows, since an array without rows still has columns.
\<close>

datatype 'a ndarray = Arr1 "'a list" | Arr2 nat nat "'a list list" | ArrObj "'a list list"

fun wf_array :: "'a ndarray \<Rightarrow> bool" where
  "wf_array (Arr2 r c rows) = (length rows = r \<and> list_all (\<lambda>row. length row = c) rows)"
| "wf_array _ = True"

text \<open>\<open>np.array\<close> of a list of 1-D arrays.\<close>

fun np_array :: "'a list list \<Rightarrow> 'a ndarray" where
  "np_array [] = Arr1 []"
| "np_array (r # rs) =
     (if list_all (\<lambda>x. length x = length r) rs
      then Arr2 (Suc (length rs)) (length r) (r # rs)
      else ArrObj (r # rs))"

text \<open>Column \<open>j\<close> of the rows, and the attribute \<open>.T\<close>, which leaves a 1-D array as it is.\<close>

definition column :: "nat \<Rightarrow> 'a list list \<Rightarrow> 'a list" where
  "column j rows = map (\<lambda>row. row ! j) rows"

fun transpose_T :: "'a ndarray \<Rightarrow> 'a ndarray" where
  "transpose_T (Arr2 r c rows) = Arr2 c r (map (\<lambda>j. column j rows) [0..<c])"
| "transpose_T a = a"

text \<open>
  What a file holds under a name: a character matrix (\<open>loadmat\<close> with
  \<open>chars_as_strings=False\<close>), a matrix of floats or of integers, or the list of
  strings that the text scanner and \<open>get_strings\<close> make of characters.
\<close>

datatype 'a matrix_value =
    Chars "char ndarray"
  | Floats "'a ndarray"
  | Ints "int ndarray"
  | Strs "string list"

text \<open>A dictionary is a list of pairs with one pair for a key; a later store overwrites.\<close>

type_synonym 'v dict = "(string \<times> 'v) list"

fun dict_set :: "'v dict \<Rightarrow> string \<Rightarrow> 'v \<Rightarrow> 'v dict" where
  "dict_set [] k v = [(k, v)]"
| "dict_set ((k', v') # d) k v = (if k' = k then (k, v) # d else (k', v') # dict_set d k v)"

definition dict_get :: "'v dict \<Rightarrow> string \<Rightarrow> error + 'v" where
  "dict_get d k = (case map_of d k of None \<Rightarrow> Inl (KeyError k) | Some v \<Rightarrow> Inr v)"

definition dict_of_pairs :: "(string \<times> 'v) list \<Rightarrow> 'v dict" where
  "dict_of_pairs ps = foldl (\<lambda>d (k, v). dict_set d k v) [] ps"

text \<open>
  \<open>get_strings\<close> (the Python 2 one): \<open>chars_to_strings\<close> of scipy joins the last
  axis of a character matrix, one string for a row; the characters \<open>loadmat\<close> decoded
  from Latin-1 are encoded back, which is nothing on bytes. A 1-D character array
  gives a 0-d array, which cannot be iterated over. No matrix of \<open>loadmat\<close> is 1-D.
\<close>

fun get_strings :: "char ndarray \<Rightarrow> error + string list" where
  "get_strings (Arr2 r c rows) = Inr (map (rstrip_chars [CHR '' '', CHR 0x00]) rows)"
| "get_strings _ = Inl (TypeError ''iteration over a 0-d array'')"

subsection \<open>The text scanner\<close>

text \<open>
  A text file is the list of its lines, each as the file iterator gives it, with
  its line end. \<open>f.next()\<close> takes the first line or raises StopIteration.
\<close>

text \<open>
  Modelled from the spec: \<open>next_nonblank\<close> of \<open>modelicares.util\<close> is not among the
  sources; the scanner is line-oriented and \<open>loadtxt\<close> catches its StopIteration at
  the end of the file. It gives the next line that is not only whitespace and the
  lines after it, or nothing at the end of the file.
\<close>

definition next_nonblank :: "string list \<Rightarrow> (string \<times> string list) option" where
  "next_nonblank f =
     (case dropWhile (\<lambda>l. list_all (\<lambda>c. c \<in> set whitespace) l) f of
        [] \<Rightarrow> None
      | l # rest \<Rightarrow> Some (l, rest))"

text \<open>\<open>n\<close> calls of \<open>f.next()\<close>: the lines read and the rest, or StopIteration.\<close>

definition next_lines :: "nat \<Rightarrow> string list \<Rightarrow> (string list \<times> string list) option" where
  "next_lines n f = (if n \<le> length f then Some (take n f, drop n f) else None)"

definition word_char :: "char \<Rightarrow> bool" where
  "word_char c =
     (c \<in> set ''abcdefghijklmnopqrstuvwxyzABCDEFGHIJKLMNOPQRSTUVWXYZ0123456789_'')"

definition digit_char :: "char \<Rightarrow> bool" where
  "digit_char c = (c \<in> set ''0123456789'')"

definition space_char :: "char \<Rightarrow> bool" where
  "space_char c = (c = CHR '' '')"

text \<open>
  \<open>SPLIT_DEFINITION\<close> matches \<open>(\w*) *(\w*) *\( *(\d*) *, *(\d*) *\)\<close> at the start
  of the line and gives the four groups, or nothing. Each starred class is followed
  by a character outside it, so the longest run is the only one that can match.
\<close>

definition SPLIT_DEFINITION :: "string \<Rightarrow> (string \<times> string \<times> string \<times> string) option" where
  "SPLIT_DEFINITION line =
     (let type_string = takeWhile word_char line;
          r1 = dropWhile space_char (dropWhile word_char line);
          name = takeWhile word_char r1;
          r2 = dropWhile space_char (dropWhile word_char r1)
      in case r2 of
           [] \<Rightarrow> None
         | c2 # r3 \<Rightarrow>
             if c2 \<noteq> CHR ''('' then None
             else
               (let r4 = dropWhile space_char r3;
                    nrows = takeWhile digit_char r4;
                    r5 = dropWhile space_char (dropWhile digit_char r4)
                in case r5 of
                     [] \<Rightarrow> None
                   | c5 # r6 \<Rightarrow>
                       if c5 \<noteq> CHR '','' then None
                       else
                         (let r7 = dropWhile space_char r6;
                              ncols = takeWhile digit_char r7;
                              r8 = dropWhile space_char (dropWhile digit_char r7)
                          in case r8 of
                               [] \<Rightarrow> None
                             | c8 # r9 \<Rightarrow>
                                 if c8 = CHR '')'' then Some (type_string, name, nrows, ncols)
                                 else None)))"

text \<open>Decimal digits: \<open>int(s)\<close> of a string of digits, and \<open>'%i' % n\<close>.\<close>

definition digit_val :: "char \<Rightarrow> nat" where
  "digit_val c = of_char c - 48"

definition nat_of_digits :: "string \<Rightarrow> nat" where
  "nat_of_digits s = foldl (\<lambda>a c. 10 * a + digit_val c) 0 s"

definition digit_of :: "nat \<Rightarrow> char" where
  "digit_of d = char_of (48 + d)"

fun str_of_nat :: "nat \<Rightarrow> string" where
  "str_of_nat n = (if n < 10 then [digit_of n] else str_of_nat (n div 10) @ [digit_of (n mod 10)])"

declare str_of_nat.simps [simp del]

text \<open>
  The three entries of \<open>PARSERS\<close>, applied to the lines that \<open>get\<close> has read.
  \<open>np.fromstring(text, float, sep=' ')\<close> and its integer form are numpy's and are the
  parameters \<open>float_fromstring\<close> and \<open>int_fromstring\<close>.
\<close>

definition before_hash :: "string \<Rightarrow> string" where
  "before_hash l = takeWhile (\<lambda>c. c \<noteq> CHR ''#'') l"

definition parse_char :: "string list \<Rightarrow> 'a matrix_value" where
  "parse_char ls = Strs (map rstrip ls)"

definition parse_float :: "(string \<Rightarrow> 'a list) \<Rightarrow> string list \<Rightarrow> 'a matrix_value" where
  "parse_float float_fromstring ls =
     Floats (transpose_T (np_array (map (\<lambda>l. float_fromstring (before_hash l)) ls)))"

definition parse_int :: "(string \<Rightarrow> int list) \<Rightarrow> string list \<Rightarrow> 'a matrix_value" where
  "parse_int int_fromstring ls =
     Ints (np_array (map (\<lambda>l. int_fromstring (before_hash l)) ls))"

text \<open>
  The loop of \<open>loadtxt\<close> over the variables of the file. A line that the pattern
  does not match gives \<open>None.groups()\<close>, an AttributeError; \<open>int('')\<close> is a ValueError.
  The end of the file inside a selected variable is a ValueError, inside a skipped
  one the StopIteration of \<open>f.next()\<close> itself.
\<close>

function loadtxt_loop ::
  "(string \<Rightarrow> 'a list) \<Rightarrow> (string \<Rightarrow> int list) \<Rightarrow> string list option \<Rightarrow>
   'a matrix_value dict \<Rightarrow> string list \<Rightarrow> error + 'a matrix_value dict" where
  "loadtxt_loop ff fi variable_names data f =
     (case next_nonblank f of
        None \<Rightarrow> Inr data
      | Some (line, f1) \<Rightarrow>
          (case SPLIT_DEFINITION line of
             None \<Rightarrow> Inl AttributeError
           | Some (type_string, name, nrows, ncols) \<Rightarrow>
               if nrows = [] then Inl (ValueError ''invalid literal for int()'')
               else if (case variable_names of None \<Rightarrow> True | Some ns \<Rightarrow> name \<in> set ns) then
                 (if type_string \<noteq> ''char'' \<and> type_string \<noteq> ''float'' \<and> type_string \<noteq> ''int''
                  then Inl (KeyError (''Unknown variable type: '' @ type_string))
                  else
                    (case next_lines (nat_of_digits nrows) f1 of
                       None \<Rightarrow> Inl (ValueError ''Unexpected end of file'')
                     | Some (ls, f2) \<Rightarrow>
                         loadtxt_loop ff fi variable_names
                           (dict_set data name
                              (if type_string = ''char'' then parse_char ls
                               else if type_string = ''float'' then parse_float ff ls
                               else parse_int fi ls))
                           f2))
               else
                 (case next_lines (nat_of_digits nrows) f1 of
                    None \<Rightarrow> Inl StopIteration
                  | Some (ls, f2) \<Rightarrow> loadtxt_loop ff fi variable_names data f2)))"
  by pat_completeness auto

lemma next_nonblank_shorter: "next_nonblank f = Some (l, r) \<Longrightarrow> length r < length f"
  unfolding next_nonblank_def
  using length_dropWhile_le [of "\<lambda>l. list_all (\<lambda>c. c \<in> set whitespace) l" f]
  by (auto split: list.splits)

lemma next_lines_shorter: "next_lines n f = Some (ls, r) \<Longrightarrow> length r \<le> length f"
  unfolding next_lines_def by (auto split: if_splits)

termination loadtxt_loop
  apply (relation "measure (\<lambda>(ff, fi, vn, d, f). length f)")
    apply simp
   apply (auto dest!: next_nonblank_shorter next_lines_shorter)
  done

declare loadtxt_loop.simps [simp del]

text \<open>\<open>loadtxt\<close>: the header is skipped by \<open>skip_header\<close> calls of \<open>f.next()\<close>.\<close>

definition loadtxt ::
  "(string \<Rightarrow> 'a list) \<Rightarrow> (string \<Rightarrow> int list) \<Rightarrow> string list \<Rightarrow> string list option \<Rightarrow> nat \<Rightarrow>
   error + 'a matrix_value dict" where
  "loadtxt ff fi f variable_names skip_header =
     (case next_lines skip_header f of
        None \<Rightarrow> Inl StopIteration
      | Some (header, f1) \<Rightarrow> loadtxt_loop ff fi variable_names [] f1)"

subsection \<open>\<open>read\<close>\<close>

text \<open>
  What is at the path: nothing that can be opened, a MATLAB file, given by the
  named matrices that \<open>loadmat\<close> finds in it, or a file that \<open>loadmat\<close> rejects with
  a ValueError, given by its lines.
\<close>

datatype 'a result_file = Unreadable | Mat "'a matrix_value dict" | Text "string list"

definition dquote :: char where
  "dquote = CHR 0x22"

definition constants_names :: "string list" where
  "constants_names =
     [''Aclass'', ''name'', ''names'', ''description'', ''dataInfo'', ''data'', ''data_1'']"

text \<open>\<open>loadmat\<close> with \<open>variable_names\<close> reads the matrices of these names only.\<close>

definition select_names :: "string list option \<Rightarrow> 'v dict \<Rightarrow> 'v dict" where
  "select_names variable_names d =
     (case variable_names of
        None \<Rightarrow> d
      | Some ns \<Rightarrow> filter (\<lambda>(k, v). k \<in> set ns) d)"

definition dict_remove :: "string \<Rightarrow> 'v dict \<Rightarrow> 'v dict" where
  "dict_remove k d = filter (\<lambda>(k', v). k' \<noteq> k) d"

text \<open>
  Whether the data is transposed: \<open>Aclass[3]\<close> is read; an IndexError means that
  it is not, and the assertion is made only when the line is there.
\<close>

definition is_transposed :: "string list \<Rightarrow> error + bool" where
  "is_transposed Aclass =
     (case getitem Aclass 3 of
        Inl e \<Rightarrow> Inr False
      | Inr l \<Rightarrow>
          if l = ''binTrans'' then Inr True
          else if l = ''binNormal'' then Inr False
          else Inl (AssertionError
                 (''The orientation of the Dymola-formatted results is not recognized.  ''
                  @ ''The third line of the '' @ [dquote] @ ''Aclass'' @ [dquote]
                  @ '' variable is '' @ [dquote] @ l @ [dquote] @ '', but it should be ''
                  @ [dquote] @ ''binNormal'' @ [dquote] @ '' or '' @ [dquote] @ ''binTrans''
                  @ [dquote] @ ''.'')))"

text \<open>
  The body of the loop over a binary file's matrices. A list of strings has no
  \<open>dtype\<close>; \<open>loadmat\<close> gives none.
\<close>

fun undo_transposition :: "bool \<Rightarrow> 'a matrix_value \<Rightarrow> error + 'a matrix_value" where
  "undo_transposition transposed (Chars a) =
     (case get_strings (if transposed then transpose_T a else a) of
        Inl e \<Rightarrow> Inl e
      | Inr ls \<Rightarrow> Inr (Strs ls))"
| "undo_transposition transposed (Floats a) = Inr (Floats (if transposed then transpose_T a else a))"
| "undo_transposition transposed (Ints a) = Inr (Ints (if transposed then transpose_T a else a))"
| "undo_transposition transposed (Strs ls) = Inl AttributeError"

text \<open>The body of the loop over a text file's matrices. A list has no \<open>.T\<close>.\<close>

fun transpose_data :: "string \<Rightarrow> 'a matrix_value \<Rightarrow> error + 'a matrix_value" where
  "transpose_data name (Strs ls) =
     (if take 5 name = ''data_'' then Inl AttributeError else Inr (Strs ls))"
| "transpose_data name (Floats a) =
     Inr (Floats (if take 5 name = ''data_'' then transpose_T a else a))"
| "transpose_data name (Ints a) =
     Inr (Ints (if take 5 name = ''data_'' then transpose_T a else a))"
| "transpose_data name (Chars a) =
     Inr (Chars (if take 5 name = ''data_'' then transpose_T a else a))"

text \<open>A loop that stores \<open>data[name] = g name value\<close> for every item; it stops at an error.\<close>

fun update_items :: "(string \<Rightarrow> 'v \<Rightarrow> error + 'v) \<Rightarrow> 'v dict \<Rightarrow> error + 'v dict" where
  "update_items g [] = Inr []"
| "update_items g ((k, v) # d) =
     (case g k v of
        Inl e \<Rightarrow> Inl e
      | Inr v' \<Rightarrow> (case update_items g d of Inl e \<Rightarrow> Inl e | Inr d' \<Rightarrow> Inr ((k, v') # d')))"

text \<open>
  \<open>read\<close> gives the matrices and \<open>Aclass\<close>. In a binary file \<open>Aclass\<close> is a character
  matrix; what \<open>chars_to_strings\<close> does to a numeric one is scipy's and is reported
  here as a TypeError.
\<close>

definition read ::
  "(string \<Rightarrow> 'a list) \<Rightarrow> (string \<Rightarrow> int list) \<Rightarrow> string \<Rightarrow> 'a result_file \<Rightarrow> bool \<Rightarrow>
   error + ('a matrix_value dict \<times> 'a matrix_value)" where
  "read ff fi fname file0 constants_only =
     (let variable_names = (if constants_only then Some constants_names else None)
      in case (case file0 of
                 Unreadable \<Rightarrow>
                   Inl (IOError ([dquote] @ fname @ [dquote]
                                 @ '' could not be opened.  Check that it exists.''))
               | Mat d \<Rightarrow> Inr (select_names variable_names d, True)
               | Text f \<Rightarrow>
                   (case loadtxt ff fi f variable_names 1 of
                      Inl e \<Rightarrow> Inl e
                    | Inr d \<Rightarrow> Inr (d, False))) of
           Inl e \<Rightarrow> Inl e
         | Inr (data0, binary) \<Rightarrow>
             (case map_of data0 ''Aclass'' of
                None \<Rightarrow>
                  Inl (TypeError ([dquote] @ fname @ [dquote]
                         @ '' does not appear to use the Dymola format.  The ''
                         @ [dquote] @ ''Aclass'' @ [dquote] @ '' variable is missing.''))
              | Some Aclass0 \<Rightarrow>
                  (let data = dict_remove ''Aclass'' data0
                   in if binary then
                        (case Aclass0 of
                           Chars a \<Rightarrow>
                             (case get_strings a of
                                Inl e \<Rightarrow> Inl e
                              | Inr Aclass \<Rightarrow>
                                  (case is_transposed Aclass of
                                     Inl e \<Rightarrow> Inl e
                                   | Inr transposed \<Rightarrow>
                                       (case update_items (\<lambda>name. undo_transposition transposed) data of
                                          Inl e \<Rightarrow> Inl e
                                        | Inr data' \<Rightarrow> Inr (data', Strs Aclass))))
                         | _ \<Rightarrow> Inl (TypeError ''Aclass is not a character matrix''))
                      else
                        (case update_items transpose_data data of
                           Inl e \<Rightarrow> Inl e
                         | Inr data' \<Rightarrow> Inr (data', Aclass0)))))"

subsection \<open>\<open>readsim\<close>\<close>

text \<open>
  Under a name the format has a matrix of one kind. A matrix of another kind is
  reported as a TypeError; what Python does with it depends on numpy, and no
  property below is about such a file. The integers of \<open>dataInfo\<close> and \<open>nx\<close> are
  unbounded here.
\<close>

definition get_strs :: "'a matrix_value dict \<Rightarrow> string \<Rightarrow> error + string list" where
  "get_strs data k =
     (case dict_get data k of
        Inl e \<Rightarrow> Inl e
      | Inr (Strs ls) \<Rightarrow> Inr ls
      | Inr _ \<Rightarrow> Inl (TypeError (k @ '' is not a list of strings'')))"

definition get_floats :: "'a matrix_value dict \<Rightarrow> string \<Rightarrow> error + 'a ndarray" where
  "get_floats data k =
     (case dict_get data k of
        Inl e \<Rightarrow> Inl e
      | Inr (Floats a) \<Rightarrow> Inr a
      | Inr _ \<Rightarrow> Inl (TypeError (k @ '' is not a matrix of floats'')))"

definition get_ints :: "'a matrix_value dict \<Rightarrow> string \<Rightarrow> error + int ndarray" where
  "get_ints data k =
     (case dict_get data k of
        Inl e \<Rightarrow> Inl e
      | Inr (Ints a) \<Rightarrow> Inr a
      | Inr _ \<Rightarrow> Inl (TypeError (k @ '' is not a matrix of integers'')))"

text \<open>
  \<open>Aclass[i] == s\<close> compares a line of \<open>Aclass\<close> with a string. In a text file
  \<open>Aclass\<close> may be a numeric matrix, whose rows are equal to no string.
\<close>

fun aclass_item :: "'a matrix_value \<Rightarrow> int \<Rightarrow> error + string option" where
  "aclass_item (Strs ls) i = (case getitem ls i of Inl e \<Rightarrow> Inl e | Inr l \<Rightarrow> Inr (Some l))"
| "aclass_item (Floats (Arr2 r c rows)) i = (case norm_index r i of None \<Rightarrow> Inl IndexError | Some k \<Rightarrow> Inr None)"
| "aclass_item (Floats (Arr1 xs)) i = (case norm_index (length xs) i of None \<Rightarrow> Inl IndexError | Some k \<Rightarrow> Inr None)"
| "aclass_item (Floats (ArrObj rows)) i = (case norm_index (length rows) i of None \<Rightarrow> Inl IndexError | Some k \<Rightarrow> Inr None)"
| "aclass_item (Ints (Arr2 r c rows)) i = (case norm_index r i of None \<Rightarrow> Inl IndexError | Some k \<Rightarrow> Inr None)"
| "aclass_item (Ints (Arr1 xs)) i = (case norm_index (length xs) i of None \<Rightarrow> Inl IndexError | Some k \<Rightarrow> Inr None)"
| "aclass_item (Ints (ArrObj rows)) i = (case norm_index (length rows) i of None \<Rightarrow> Inl IndexError | Some k \<Rightarrow> Inr None)"
| "aclass_item (Chars a) i = Inl (TypeError ''Aclass is a character matrix'')"

text \<open>
  A unit of natu: a \<open>ScalarUnit\<close> has the scale factor \<open>_value\<close>; a \<open>LambdaUnit\<close> has
  none and maps a number to a quantity, of which \<open>_value\<close> is taken. Both have a
  dimension.
\<close>

datatype ('a, 'dim) natu_unit = ScalarUnit 'a 'dim | LambdaUnit "'a \<Rightarrow> 'a" 'dim

fun unit_dimension :: "('a, 'dim) natu_unit \<Rightarrow> 'dim" where
  "unit_dimension (ScalarUnit v d) = d"
| "unit_dimension (LambdaUnit g d) = d"

text \<open>
  The arrays of a Samples are slices of the trajectory matrices, which share their
  memory: \<open>View k j\<close> is column \<open>j\<close> of the matrix \<open>k\<close> of \<open>trajectories\<close>. An array that
  an operation has made anew is \<open>Owned\<close>.
\<close>

datatype 'a array_ref = View nat nat | Owned "'a list"

fun array_rows :: "'a ndarray \<Rightarrow> 'a list list" where
  "array_rows (Arr2 r c rows) = rows"
| "array_rows (ArrObj rows) = rows"
| "array_rows (Arr1 xs) = []"

fun array_values :: "'a ndarray list \<Rightarrow> 'a array_ref \<Rightarrow> 'a list" where
  "array_values trajectories (View k j) = column j (array_rows (trajectories ! k))"
| "array_values trajectories (Owned xs) = xs"

datatype 'u py_string = Str string | Unicode 'u

record ('a, 'dim, 'u) Variable =
  samples :: "'a array_ref Samples"
  dimension :: "'dim option"
  display_unit :: "string option"
  description :: "'u py_string"

text \<open>\<open>a[:, i]\<close>: the index of the column, or an IndexError (also when \<open>a\<close> is 1-D).\<close>

fun col_index :: "'a ndarray \<Rightarrow> int \<Rightarrow> error + nat" where
  "col_index (Arr2 r c rows) i = (case norm_index c i of None \<Rightarrow> Inl IndexError | Some j \<Rightarrow> Inr j)"
| "col_index _ i = Inl IndexError"

text \<open>\<open>a[:, j] *= v\<close>, in place.\<close>

fun scale_column :: "nat \<Rightarrow> ('a::times) \<Rightarrow> 'a ndarray \<Rightarrow> 'a ndarray" where
  "scale_column j v (Arr2 r c rows) = Arr2 r c (map (\<lambda>row. row[j := row ! j * v]) rows)"
| "scale_column j v a = a"

fun scale_view :: "('a::times) \<Rightarrow> 'a array_ref \<Rightarrow> 'a ndarray list \<Rightarrow> 'a ndarray list" where
  "scale_view v (View k j) trajectories = trajectories[k := scale_column j v (trajectories ! k)]"
| "scale_view v (Owned xs) trajectories = trajectories"

definition data_key :: "nat \<Rightarrow> string" where
  "data_key i = ''data_'' @ str_of_nat i"

text \<open>The largest number that a key of the dictionary ends with after five characters.\<close>

definition key_bound :: "'v dict \<Rightarrow> nat" where
  "key_bound data = foldr (\<lambda>(k, v) m. max (nat_of_digits (drop 5 k)) m) data 0"

lemma nat_of_digits_snoc: "nat_of_digits (s @ [c]) = 10 * nat_of_digits s + digit_val c"
  by (simp add: nat_of_digits_def)

lemma digit_val_digit_of: "d < 10 \<Longrightarrow> digit_val (digit_of d) = d"
  by (simp add: digit_val_def digit_of_def)

lemma nat_of_digits_str_of_nat: "nat_of_digits (str_of_nat n) = n"
proof (induction n rule: str_of_nat.induct)
  case (1 n)
  show ?case
  proof (cases "n < 10")
    case True
    then show ?thesis
      using nat_of_digits_snoc [of "[]" "digit_of n"]
      by (simp add: str_of_nat.simps [of n] digit_val_digit_of nat_of_digits_def)
  next
    case False
    then have "nat_of_digits (str_of_nat (n div 10)) = n div 10"
      using 1 by simp
    with False show ?thesis
      by (simp add: str_of_nat.simps [of n] nat_of_digits_snoc digit_val_digit_of)
  qed
qed

lemma key_bound_ge: "(k, v) \<in> set data \<Longrightarrow> nat_of_digits (drop 5 k) \<le> key_bound data"
  unfolding key_bound_def by (induction data) auto

lemma data_key_bound: "map_of data (data_key i) = Some v \<Longrightarrow> i \<le> key_bound data"
  using key_bound_ge [OF map_of_SomeD, of data "data_key i" v]
  by (simp add: data_key_def nat_of_digits_str_of_nat)

text \<open>
  The loop over \<open>count(1)\<close> that collects \<open>data_1\<close>, \<open>data_2\<close>, ... up to the first
  name that is missing; \<open>second_value\<close> is \<open>second._value\<close> of natu.
\<close>

function extract_trajectories ::
  "('a::{times,one}) \<Rightarrow> 'a matrix_value dict \<Rightarrow> nat \<Rightarrow> 'a ndarray list \<Rightarrow> error + 'a ndarray list" where
  "extract_trajectories second_value data i trajectories =
     (case map_of data (data_key i) of
        None \<Rightarrow> Inr trajectories
      | Some v \<Rightarrow>
          (case v of
             Floats a \<Rightarrow>
               (if second_value \<noteq> 1 then
                  (case col_index a 0 of
                     Inl e \<Rightarrow> Inl e
                   | Inr j \<Rightarrow>
                       extract_trajectories second_value data (Suc i)
                         (trajectories @ [scale_column j second_value a]))
                else extract_trajectories second_value data (Suc i) (trajectories @ [a]))
           | _ \<Rightarrow> Inl (TypeError (data_key i @ '' is not a matrix of floats''))))"
  by pat_completeness auto
termination
  apply (relation "measure (\<lambda>(sv, data, i, ts). Suc (key_bound data) - i)")
    apply simp
   apply (auto dest!: data_key_bound)
  done

declare extract_trajectories.simps [simp del]

text \<open>
  The sign and the column of a variable: \<open>negated\<close>, \<open>traj\<close>, \<open>signed_values\<close> and
  \<open>times\<close> of the loop that creates the variables. The result is \<open>negated\<close>, \<open>times\<close>
  and \<open>signed_values\<close>.
\<close>

definition select_samples ::
  "'a ndarray list \<Rightarrow> int \<Rightarrow> int \<Rightarrow> error + (bool \<times> 'a array_ref \<times> 'a array_ref)" where
  "select_samples trajectories data_set sign_col =
     (let negated = (sign_col < 0)
      in case norm_index (length trajectories) (data_set - 1) of
           None \<Rightarrow> Inl IndexError
         | Some k \<Rightarrow>
             (case col_index (trajectories ! k) ((if negated then - sign_col else sign_col) - 1) of
                Inl e \<Rightarrow> Inl e
              | Inr j \<Rightarrow>
                  (case col_index (trajectories ! k) 0 of
                     Inl e \<Rightarrow> Inl e
                   | Inr j0 \<Rightarrow> Inr (negated, View k j0, View k j))))"

text \<open>
  \<open>np.vectorize\<close> calls the function on the first element to find the type of the
  result; on an array without elements it raises.
\<close>

definition vectorize :: "('a \<Rightarrow> 'a) \<Rightarrow> 'a list \<Rightarrow> error + 'a list" where
  "vectorize g xs =
     (if xs = [] then Inl (ValueError ''cannot call vectorize on size 0 inputs'')
      else Inr (map g xs))"

text \<open>
  The body of the loop that creates the variables, for one description and one
  row \<open>[data_set, sign_col]\<close> of \<open>dataInfo\<close>. It gives the trajectories, which the
  scaling changes in place, and the variable.
\<close>

definition make_variable ::
  "(string \<Rightarrow> error + ('a::{times,one,uminus}, 'dim) natu_unit) \<Rightarrow> (string \<Rightarrow> error + 'u) \<Rightarrow>
   'a ndarray list \<Rightarrow> string \<Rightarrow> int \<Rightarrow> int \<Rightarrow>
   error + ('a ndarray list \<times> ('a, 'dim, 'u) Variable)" where
  "make_variable units decode trajectories description0 data_set sign_col =
     (case parse_description units decode description0 of
        Inl e \<Rightarrow> Inl e
      | Inr (unit, display_unit1, description1) \<Rightarrow>
          (case select_samples trajectories data_set sign_col of
             Inl e \<Rightarrow> Inl e
           | Inr (negated0, times0, signed_values0) \<Rightarrow>
               (case unit of
                  ScalarUnit v dim \<Rightarrow>
                    Inr (if v \<noteq> 1 then scale_view v signed_values0 trajectories else trajectories,
                         \<lparr>samples = \<lparr>times_arr = times0, signed_values = signed_values0,
                                     negated = negated0\<rparr>,
                          dimension = Some dim, display_unit = Some display_unit1,
                          description = Unicode description1\<rparr>)
                | LambdaUnit g dim \<Rightarrow>
                    (let signed_values1 =
                           (if negated0 then neg_array (array_values trajectories signed_values0)
                            else array_values trajectories signed_values0);
                         negated1 = (if negated0 then False else negated0)
                     in case vectorize g signed_values1 of
                          Inl e \<Rightarrow> Inl e
                        | Inr signed_values2 \<Rightarrow>
                            Inr (trajectories,
                                 \<lparr>samples = \<lparr>times_arr = times0, signed_values = Owned signed_values2,
                                             negated = negated1\<rparr>,
                                  dimension = Some dim, display_unit = Some display_unit1,
                                  description = Unicode description1\<rparr>)))))"

text \<open>
  The loop itself, over the pairs of a description and a row of
  \<open>dataInfo[:, 0:2]\<close>. A row that has not two entries cannot be unpacked. The last
  \<open>times\<close> is kept, since the variable \<open>Time\<close> is made of it after the loop.
\<close>

fun create_variables ::
  "(string \<Rightarrow> error + ('a::{times,one,uminus}, 'dim) natu_unit) \<Rightarrow> (string \<Rightarrow> error + 'u) \<Rightarrow>
   'a ndarray list \<Rightarrow> ('a, 'dim, 'u) Variable list \<Rightarrow> 'a array_ref option \<Rightarrow>
   (string \<times> int list) list \<Rightarrow>
   error + ('a ndarray list \<times> ('a, 'dim, 'u) Variable list \<times> 'a array_ref option)" where
  "create_variables units decode trajectories variables times0 [] =
     Inr (trajectories, variables, times0)"
| "create_variables units decode trajectories variables times0 ((description0, row) # rest) =
     (case row of
        [data_set, sign_col] \<Rightarrow>
          (case make_variable units decode trajectories description0 data_set sign_col of
             Inl e \<Rightarrow> Inl e
           | Inr (trajectories', variable) \<Rightarrow>
               create_variables units decode trajectories' (variables @ [variable])
                 (Some (times_arr (samples variable))) rest)
      | _ \<Rightarrow> Inl (ValueError ''need 2 values to unpack''))"

text \<open>\<open>dataInfo[:, 0:2]\<close>, as the list of its rows.\<close>

fun first_two_columns :: "int ndarray \<Rightarrow> error + int list list" where
  "first_two_columns (Arr2 r c rows) = Inr (map (take 2) rows)"
| "first_two_columns _ = Inl IndexError"

text \<open>
  The module binds no name \<open>s\<close>: the second of natu is imported as \<open>second\<close>. The
  expression \<open>s._value\<close> of the branch of version 1.0 is a NameError.
\<close>

definition global_s_value :: "error + 'a" where
  "global_s_value = Inl (NameError ''s'')"

text \<open>The dictionary comprehension of version 1.0, over \<open>enumerate(data['names'])\<close>.\<close>

fun variables_1_0 ::
  "'a ndarray \<Rightarrow> 'a array_ref \<Rightarrow> nat \<Rightarrow> string list \<Rightarrow> error + (string \<times> ('a, 'dim, 'u) Variable) list" where
  "variables_1_0 traj times0 i [] = Inr []"
| "variables_1_0 traj times0 i (name # names) =
     (case col_index traj (int i) of
        Inl e \<Rightarrow> Inl e
      | Inr j \<Rightarrow>
          (case variables_1_0 traj times0 (Suc i) names of
             Inl e \<Rightarrow> Inl e
           | Inr ps \<Rightarrow>
               Inr ((name, \<lparr>samples = \<lparr>times_arr = times0, signed_values = View 0 j, negated = False\<rparr>,
                           dimension = None, display_unit = None, description = Str []\<rparr>) # ps)))"

text \<open>
  \<open>readsim\<close> after the file is read. \<open>second_value\<close> and \<open>second_dimension\<close> are
  \<open>second._value\<close> and \<open>second.dimension\<close> of natu. The result is the trajectory
  matrices, as the scaling has left them, and the dictionary of the variables,
  whose arrays refer to these matrices.
\<close>

definition readsim_body ::
  "(string \<Rightarrow> error + ('a::{times,one,uminus}, 'dim) natu_unit) \<Rightarrow> (string \<Rightarrow> error + 'u) \<Rightarrow>
   'a \<Rightarrow> 'dim \<Rightarrow> string \<Rightarrow> 'a matrix_value dict \<Rightarrow> 'a matrix_value \<Rightarrow>
   error + ('a ndarray list \<times> ('a, 'dim, 'u) Variable dict)" where
  "readsim_body units decode second_value second_dimension fname data Aclass =
     (case aclass_item Aclass 0 of
        Inl e \<Rightarrow> Inl e
      | Inr kind \<Rightarrow>
          if kind = Some ''AlinearSystem''
          then Inl (AssertionError (fname @ '' is a linearization result.  Use LinRes instead.''))
          else if kind \<noteq> Some ''Atrajectory''
          then Inl (AssertionError (fname @ '' is not a simulation or linearization result.''))
          else
            (case aclass_item Aclass 1 of
               Inl e \<Rightarrow> Inl e
             | Inr version \<Rightarrow>
                 if version = Some ''1.1'' then
                   (case get_strs data ''name'' of
                      Inl e \<Rightarrow> Inl e
                    | Inr names \<Rightarrow>
                        (let units_included = (''environment.baseUnits.c'' \<in> set names)
                         in case extract_trajectories second_value data 1 [] of
                              Inl e \<Rightarrow> Inl e
                            | Inr trajectories \<Rightarrow>
                                (case get_strs data ''description'' of
                                   Inl e \<Rightarrow> Inl e
                                 | Inr descriptions \<Rightarrow>
                                     (case get_ints data ''dataInfo'' of
                                        Inl e \<Rightarrow> Inl e
                                      | Inr dataInfo \<Rightarrow>
                                          (case first_two_columns dataInfo of
                                             Inl e \<Rightarrow> Inl e
                                           | Inr rows \<Rightarrow>
                                               (case create_variables units decode trajectories [] None
                                                       (zip descriptions rows) of
                                                  Inl e \<Rightarrow> Inl e
                                                | Inr (trajectories', variables, times0) \<Rightarrow>
                                                    (case times0 of
                                                       None \<Rightarrow> Inl (NameError ''times'')
                                                     | Some t \<Rightarrow>
                                                         Inr (trajectories',
                                                              dict_set (dict_of_pairs (zip names variables)) ''Time''
                                                                \<lparr>samples = \<lparr>times_arr = t, signed_values = t,
                                                                            negated = False\<rparr>,
                                                                 dimension = Some second_dimension,
                                                                 display_unit = Some ''s'',
                                                                 description = Str ''Time''\<rparr>))))))))
                 else if version = Some ''1.0'' then
                   (case get_floats data ''data'' of
                      Inl e \<Rightarrow> Inl e
                    | Inr traj \<Rightarrow>
                        (case col_index traj 0 of
                           Inl e \<Rightarrow> Inl e
                         | Inr j0 \<Rightarrow>
                             (case global_s_value of
                                Inl e \<Rightarrow> Inl e
                              | Inr s_value \<Rightarrow>
                                  (let times0 = Owned (map (\<lambda>t. t * s_value) (column j0 (array_rows traj)))
                                   in case get_strs data ''names'' of
                                        Inl e \<Rightarrow> Inl e
                                      | Inr names \<Rightarrow>
                                          (case variables_1_0 traj times0 0 names of
                                             Inl e \<Rightarrow> Inl e
                                           | Inr ps \<Rightarrow> Inr ([traj], dict_of_pairs ps))))))
                 else
                   Inl (AssertionError
                     (''The version of the Dymola-formatted result file (%s) '' @ ''isn't supported.''))))"

definition readsim ::
  "(string \<Rightarrow> 'a list) \<Rightarrow> (string \<Rightarrow> int list) \<Rightarrow>
   (string \<Rightarrow> error + ('a::{times,one,uminus}, 'dim) natu_unit) \<Rightarrow> (string \<Rightarrow> error + 'u) \<Rightarrow>
   'a \<Rightarrow> 'dim \<Rightarrow> string \<Rightarrow> 'a result_file \<Rightarrow> bool \<Rightarrow>
   error + ('a ndarray list \<times> ('a, 'dim, 'u) Variable dict)" where
  "readsim ff fi units decode second_value second_dimension fname file0 constants_only =
     (case read ff fi fname file0 constants_only of
        Inl e \<Rightarrow> Inl e
      | Inr (data, Aclass) \<Rightarrow>
          readsim_body units decode second_value second_dimension fname data Aclass)"

subsection \<open>\<open>readlin\<close>\<close>

text \<open>\<open>a.shape\<close> of a 2-D array; \<open>shape[1]\<close> of a 1-D array is an IndexError.\<close>

fun shape2 :: "'a ndarray \<Rightarrow> error + (nat \<times> nat)" where
  "shape2 (Arr2 r c rows) = Inr (r, c)"
| "shape2 _ = Inl IndexError"

text \<open>
  \<open>data['nx'][0]\<close>: the first row of a matrix of one entry stands for the number in
  it, as the first entry of a 1-D array does.
\<close>

fun first_nx :: "int ndarray \<Rightarrow> error + int" where
  "first_nx (Arr2 r c rows) =
     (case rows of
        [] \<Rightarrow> Inl IndexError
      | row # rest \<Rightarrow>
          (case row of
             [n] \<Rightarrow> Inr n
           | _ \<Rightarrow> Inl (TypeError ''nx is not a single number'')))"
| "first_nx (Arr1 xs) = (case xs of [] \<Rightarrow> Inl IndexError | n # rest \<Rightarrow> Inr n)"
| "first_nx (ArrObj rows) = Inl (TypeError ''nx is not a single number'')"

text \<open>
  The four blocks: \<open>ABCD[:nx, :nx]\<close>, \<open>ABCD[:nx, nx:]\<close>, \<open>ABCD[nx:, :nx]\<close> and
  \<open>ABCD[nx:, nx:]\<close> of a matrix of shape \<open>(r, c)\<close>.
\<close>

definition block_A :: "nat \<Rightarrow> nat \<Rightarrow> 'a list list \<Rightarrow> int \<Rightarrow> 'a ndarray" where
  "block_A r c rows nx =
     Arr2 (slice_bound r nx) (slice_bound c nx) (map (slice_to nx) (slice_to nx rows))"

definition block_B :: "nat \<Rightarrow> nat \<Rightarrow> 'a list list \<Rightarrow> int \<Rightarrow> 'a ndarray" where
  "block_B r c rows nx =
     Arr2 (slice_bound r nx) (c - slice_bound c nx) (map (slice_from nx) (slice_to nx rows))"

definition block_C :: "nat \<Rightarrow> nat \<Rightarrow> 'a list list \<Rightarrow> int \<Rightarrow> 'a ndarray" where
  "block_C r c rows nx =
     Arr2 (r - slice_bound r nx) (slice_bound c nx) (map (slice_to nx) (slice_from nx rows))"

definition block_D :: "nat \<Rightarrow> nat \<Rightarrow> 'a list list \<Rightarrow> int \<Rightarrow> 'a ndarray" where
  "block_D r c rows nx =
     Arr2 (r - slice_bound r nx) (c - slice_bound c nx) (map (slice_from nx) (slice_from nx rows))"

text \<open>The list \<open>[[]]\<close>, one row without entries.\<close>

definition empty_matrix :: "'a ndarray" where
  "empty_matrix = Arr2 1 0 [[]]"

text \<open>
  The numbers of inputs and outputs and the matrices of the system, from \<open>ABCD\<close>
  and \<open>nx\<close>: the result is \<open>(nu, ny, A, B, C, D)\<close>.
\<close>

definition system_matrices ::
  "'a ndarray \<Rightarrow> int \<Rightarrow> error + (int \<times> int \<times> 'a ndarray \<times> 'a ndarray \<times> 'a ndarray \<times> 'a ndarray)" where
  "system_matrices ABCD nx =
     (case shape2 ABCD of
        Inl e \<Rightarrow> Inl e
      | Inr (r, c) \<Rightarrow>
          (let nu = int c - nx;
               ny = int r - nx;
               rows = array_rows ABCD;
               A = (if nx > 0 then block_A r c rows nx else empty_matrix);
               B = (if nx > 0 \<and> nu > 0 then block_B r c rows nx else empty_matrix);
               C = (if nx > 0 \<and> ny > 0 then block_C r c rows nx else empty_matrix);
               D = (if nu > 0 \<and> ny > 0 then block_D r c rows nx else empty_matrix)
           in Inr (nu, ny, A, B, C, D)))"

text \<open>
  \<open>readlin\<close> after the file is read. \<open>ss\<close> of python-control, which makes the system
  of the four matrices, is a parameter; the three lists of names are set on what it
  gives.
\<close>

record 'sys LinRes =
  sys :: 'sys
  state_names :: "string list"
  input_names :: "string list"
  output_names :: "string list"

definition readlin_body ::
  "('a ndarray \<Rightarrow> 'a ndarray \<Rightarrow> 'a ndarray \<Rightarrow> 'a ndarray \<Rightarrow> error + 'sys) \<Rightarrow>
   string \<Rightarrow> 'a matrix_value dict \<Rightarrow> 'a matrix_value \<Rightarrow> error + 'sys LinRes" where
  "readlin_body ss fname data Aclass =
     (case aclass_item Aclass 0 of
        Inl e \<Rightarrow> Inl e
      | Inr kind \<Rightarrow>
          if kind = Some ''Atrajectory''
          then Inl (AssertionError (fname @ '' is a simulation result.  Use SimRes instead.''))
          else if kind \<noteq> Some ''AlinearSystem''
          then Inl (AssertionError (fname @ '' is not a simulation or linearization result.''))
          else
            (case get_floats data ''ABCD'' of
               Inl e \<Rightarrow> Inl e
             | Inr ABCD \<Rightarrow>
                 (case get_ints data ''nx'' of
                    Inl e \<Rightarrow> Inl e
                  | Inr nx_matrix \<Rightarrow>
                      (case first_nx nx_matrix of
                         Inl e \<Rightarrow> Inl e
                       | Inr nx \<Rightarrow>
                           (case system_matrices ABCD nx of
                              Inl e \<Rightarrow> Inl e
                            | Inr (nu, ny, A, B, C, D) \<Rightarrow>
                                (case ss A B C D of
                                   Inl e \<Rightarrow> Inl e
                                 | Inr system \<Rightarrow>
                                     (case get_strs data ''xuyName'' of
                                        Inl e \<Rightarrow> Inl e
                                      | Inr xuyName \<Rightarrow>
                                          Inr \<lparr>sys = system,
                                               state_names = slice_to nx xuyName,
                                               input_names = slice_between nx (nx + nu) xuyName,
                                               output_names = slice_from (nx + nu) xuyName\<rparr>)))))))"

definition readlin ::
  "(string \<Rightarrow> 'a list) \<Rightarrow> (string \<Rightarrow> int list) \<Rightarrow>
   ('a ndarray \<Rightarrow> 'a ndarray \<Rightarrow> 'a ndarray \<Rightarrow> 'a ndarray \<Rightarrow> error + 'sys) \<Rightarrow>
   string \<Rightarrow> 'a result_file \<Rightarrow> error + 'sys LinRes" where
  "readlin ff fi ss fname file0 =
     (case read ff fi fname file0 False of
        Inl e \<Rightarrow> Inl e
      | Inr (data, Aclass) \<Rightarrow> readlin_body ss fname data Aclass)"

subsection \<open>Stand-ins for the libraries\<close>

text \<open>
  To run the model on an example, the parameters that stand for numpy, natu and
  python-control need values. These are simple ones: a number of a text line is
  kept as its token or read as a decimal integer, three units are known, and the
  system is the four matrices it is made of.
\<close>

fun tokens_from :: "string \<Rightarrow> string \<Rightarrow> string list" where
  "tokens_from cur [] = (if cur = [] then [] else [cur])"
| "tokens_from cur (c # cs) =
     (if c \<in> set whitespace
      then (if cur = [] then tokens_from [] cs else cur # tokens_from [] cs)
      else tokens_from (cur @ [c]) cs)"

definition tokens :: "string \<Rightarrow> string list" where
  "tokens s = tokens_from [] s"

definition int_literal :: "string \<Rightarrow> int" where
  "int_literal t =
     (case t of
        [] \<Rightarrow> 0
      | c # cs \<Rightarrow> if c = CHR ''-'' then - int (nat_of_digits cs) else int (nat_of_digits t))"

definition int_fromstring :: "string \<Rightarrow> int list" where
  "int_fromstring s = map int_literal (tokens s)"

definition example_offset :: "int \<Rightarrow> int" where
  "example_offset x = x + 273"

definition example_units :: "string \<Rightarrow> error + (int, string) natu_unit" where
  "example_units u =
     (if u = ''degC'' then Inr (LambdaUnit example_offset ''Theta'')
      else if u = ''kohm'' then Inr (ScalarUnit 1000 ''R'')
      else Inr (ScalarUnit 1 ''1''))"

definition keep_matrices ::
  "'a ndarray \<Rightarrow> 'a ndarray \<Rightarrow> 'a ndarray \<Rightarrow> 'a ndarray \<Rightarrow>
   error + ('a ndarray \<times> 'a ndarray \<times> 'a ndarray \<times> 'a ndarray)" where
  "keep_matrices A B C D = Inr (A, B, C, D)"

text \<open>
  A simulation result of version 1.1 with two trajectory matrices and four
  variables: the time, a resistance in \<open>kOhm\<close> stored with the opposite sign, a
  temperature in \<open>degC\<close>, and a variable whose row of \<open>dataInfo\<close> is \<open>[0, 0]\<close>.
  \<open>example_trajectories\<close> are its matrices as they are read, \<open>example_final\<close> as
  \<open>readsim\<close> leaves them, and \<open>example_variables\<close> is what \<open>readsim\<close> returns.
\<close>

definition example_simulation :: "int matrix_value dict" where
  "example_simulation =
     [(''name'', Strs [''Time'', ''R'', ''T'', ''last'']),
      (''description'', Strs [''Time in [s]'', ''R [kOhm]'', ''T [degC]'', '''']),
      (''dataInfo'', Ints (Arr2 4 4 [[1, 1, 0, -1], [2, -3, 0, -1], [2, 2, 0, -1], [0, 0, 0, -1]])),
      (''data_1'', Floats (Arr2 2 2 [[0, 7], [1, 7]])),
      (''data_2'', Floats (Arr2 2 3 [[0, 10, 20], [1, 11, 21]]))]"

definition example_trajectories :: "int ndarray list" where
  "example_trajectories = [Arr2 2 2 [[0, 7], [1, 7]], Arr2 2 3 [[0, 10, 20], [1, 11, 21]]]"

definition example_final :: "int ndarray list" where
  "example_final = [Arr2 2 2 [[0, 7], [1, 7]], Arr2 2 3 [[0, 10, 20000], [1, 11, 21000]]]"

definition example_variables :: "(int, string, string) Variable dict" where
  "example_variables =
     [(''Time'',
        \<lparr>samples = \<lparr>times_arr = View 1 0, signed_values = View 1 0, negated = False\<rparr>,
         dimension = Some ''time'', display_unit = Some ''s'', description = Str ''Time''\<rparr>),
      (''R'',
        \<lparr>samples = \<lparr>times_arr = View 1 0, signed_values = View 1 2, negated = True\<rparr>,
         dimension = Some ''R'', display_unit = Some ''kohm'', description = Unicode ''R''\<rparr>),
      (''T'',
        \<lparr>samples = \<lparr>times_arr = View 1 0, signed_values = Owned [283, 284], negated = False\<rparr>,
         dimension = Some ''Theta'', display_unit = Some ''degC'', description = Unicode ''T''\<rparr>),
      (''last'',
        \<lparr>samples = \<lparr>times_arr = View 1 0, signed_values = View 1 2, negated = False\<rparr>,
         dimension = Some ''1'', display_unit = Some [], description = Unicode []\<rparr>)]"

section \<open>Properties\<close>

text \<open>
  C2. The derived values of a Samples are the element-wise negation of its signed
  values when \<open>negated\<close> is set and the signed values themselves when it is not, so
  that the values of \<open>(t, v, true)\<close> are the element-wise negation of the values of
  \<open>(t, v, false)\<close>; the Samples stores \<open>v\<close> in both cases, not a negated copy.
\<close>

theorem values_negation:
  "Samples_values \<lparr>times_arr = t, signed_values = (v :: ('a::uminus) list), negated = True\<rparr>
         = map uminus v
       \<and> Samples_values \<lparr>times_arr = t, signed_values = v, negated = False\<rparr> = v
       \<and> Samples_values \<lparr>times_arr = t, signed_values = v, negated = True\<rparr>
           = map uminus (Samples_values \<lparr>times_arr = t, signed_values = v, negated = False\<rparr>)
       \<and> length (Samples_values \<lparr>times_arr = t, signed_values = v, negated = True\<rparr>) = length v
       \<and> signed_values \<lparr>times_arr = t, signed_values = v, negated = True\<rparr>
           = signed_values \<lparr>times_arr = t, signed_values = v, negated = False\<rparr>"
  by (simp add: Samples_values_def neg_array_def)

lemma norm_index_in_range: "0 \<le> i \<Longrightarrow> i < int n \<Longrightarrow> norm_index n i = Some (nat i)"
  by (simp add: norm_index_def)

lemma norm_index_last: "0 < n \<Longrightarrow> norm_index n (-1) = Some (n - 1)"
  by (auto simp add: norm_index_def nat_diff_distrib)

lemma norm_index_less: "norm_index n i = Some k \<Longrightarrow> k < n"
  by (auto simp add: norm_index_def split: if_splits)

lemma norm_index_zero: "0 < n \<Longrightarrow> norm_index n 0 = Some 0"
  by (simp add: norm_index_def)

lemma select_samples_zero_entries:
  "(norm_index (length trajectories) (data_set - 1) = Some k \<and> trajectories ! k = Arr2 r c rows \<and> 0 < c
      \<longrightarrow> select_samples trajectories data_set 0 = Inr (False, View k 0, View k (c - 1)))
   \<and> (trajectories \<noteq> [] \<and> last trajectories = Arr2 r' c' rows' \<and> norm_index c' (\<bar>sign_col\<bar> - 1) = Some j
      \<longrightarrow> select_samples trajectories 0 sign_col
            = Inr (sign_col < 0, View (length trajectories - 1) 0, View (length trajectories - 1) j))"
proof (intro conjI impI)
  assume a: "norm_index (length trajectories) (data_set - 1) = Some k \<and> trajectories ! k = Arr2 r c rows \<and> 0 < c"
  then show "select_samples trajectories data_set 0 = Inr (False, View k 0, View k (c - 1))"
    by (simp add: select_samples_def norm_index_last norm_index_zero)
next
  assume a: "trajectories \<noteq> [] \<and> last trajectories = Arr2 r' c' rows' \<and> norm_index c' (\<bar>sign_col\<bar> - 1) = Some j"
  then have k: "norm_index (length trajectories) (0 - 1) = Some (length trajectories - 1)"
    by (simp add: norm_index_last)
  have t: "trajectories ! (length trajectories - 1) = Arr2 r' c' rows'"
    using a last_conv_nth [of trajectories] by auto
  have "j < c'" using a norm_index_less [of c' "\<bar>sign_col\<bar> - 1" j] by simp
  then have "0 < c'" by simp
  then have j0: "norm_index c' 0 = Some 0" by (rule norm_index_zero)
  have j: "norm_index c' ((if sign_col < 0 then - sign_col else sign_col) - 1) = Some j"
    using a by (auto simp add: abs_if split: if_splits)
  show "select_samples trajectories 0 sign_col
            = Inr (sign_col < 0, View (length trajectories - 1) 0, View (length trajectories - 1) j)"
    using k t j j0 by (simp add: select_samples_def)
qed

lemma col_index_Inr: "col_index a i = Inr j \<Longrightarrow> \<exists>r c rows. a = Arr2 r c rows \<and> j < c"
  by (cases a) (auto split: option.splits dest: norm_index_less)

lemma col_index_zero: "col_index a 0 = Inr j \<Longrightarrow> j = 0"
  by (cases a) (auto simp add: norm_index_def split: option.splits if_splits)

lemma select_samples_views:
  "select_samples trajectories data_set sign_col = Inr (neg, tm, sv) \<Longrightarrow>
   \<exists>k j r c rows. k < length trajectories \<and> trajectories ! k = Arr2 r c rows \<and> j < c
      \<and> tm = View k 0 \<and> sv = View k j \<and> neg = (sign_col < 0)"
proof -
  assume a: "select_samples trajectories data_set sign_col = Inr (neg, tm, sv)"
  then obtain k where k: "norm_index (length trajectories) (data_set - 1) = Some k"
    by (auto simp add: select_samples_def Let_def split: option.splits)
  with a obtain j where
    j: "col_index (trajectories ! k) ((if sign_col < 0 then - sign_col else sign_col) - 1) = Inr j"
    by (auto simp add: select_samples_def Let_def split: sum.splits)
  with a k obtain j0 where j0: "col_index (trajectories ! k) 0 = Inr j0"
    by (auto simp add: select_samples_def Let_def split: sum.splits)
  from a k j j0 have r: "neg = (sign_col < 0)" "tm = View k j0" "sv = View k j"
    by (auto simp add: select_samples_def Let_def)
  from j0 have "j0 = 0" by (rule col_index_zero)
  moreover from j obtain r c rows where "trajectories ! k = Arr2 r c rows" "j < c"
    using col_index_Inr by blast
  moreover from k have "k < length trajectories" by (rule norm_index_less)
  ultimately show ?thesis using r by blast
qed

lemma column_scaled:
  "list_all (\<lambda>row. length row = c) rows \<Longrightarrow> j < c \<Longrightarrow>
   column j (map (\<lambda>row. row[j := row ! j * v]) rows) = map (\<lambda>x. x * v) (column j rows)"
  by (induction rows) (auto simp add: column_def)

lemma take_min_length: "take (min n (length xs)) xs = take n xs"
  by (cases "n \<le> length xs") (simp_all add: min_def)

lemma drop_min_length: "drop (min n (length xs)) xs = drop n xs"
  by (cases "n \<le> length xs") (simp_all add: min_def)

lemma slice_to_nonneg: "0 \<le> n \<Longrightarrow> slice_to n xs = take (nat n) xs"
  by (simp add: slice_to_def slice_bound_def take_min_length)

lemma slice_from_nonneg: "0 \<le> n \<Longrightarrow> slice_from n xs = drop (nat n) xs"
  by (simp add: slice_from_def slice_bound_def drop_min_length)

lemma slice_between_nonneg:
  "0 \<le> lo \<Longrightarrow> lo \<le> hi \<Longrightarrow> slice_between lo hi xs = take (nat (hi - lo)) (drop (nat lo) xs)"
proof -
  assume a: "0 \<le> lo" "lo \<le> hi"
  have "slice_between lo hi xs = drop (min (nat lo) (length xs)) (take (min (nat hi) (length xs)) xs)"
    using a by (simp add: slice_between_def slice_bound_def)
  also have "\<dots> = drop (min (nat lo) (length xs)) (take (nat hi) xs)"
    by (simp only: take_min_length)
  also have "\<dots> = drop (nat lo) (take (nat hi) xs)"
    using a by (cases "nat lo \<le> length xs") (simp_all add: min_def)
  also have "\<dots> = take (nat hi - nat lo) (drop (nat lo) xs)"
    by (simp add: drop_take)
  also have "nat hi - nat lo = nat (hi - lo)"
    using a by (simp add: nat_diff_distrib)
  finally show ?thesis .
qed

lemma slice_bound_within: "0 \<le> n \<Longrightarrow> n \<le> int m \<Longrightarrow> slice_bound m n = nat n"
  by (auto simp add: slice_bound_def min_def)

text \<open>
  C5. For a matrix \<open>ABCD\<close> of shape \<open>(r, c)\<close> and \<open>0 \<le> nx \<le> min r c\<close>, \<open>readlin\<close> has
  \<open>nu = c - nx\<close> and \<open>ny = r - nx\<close>, makes the system of the four blocks of \<open>ABCD\<close>, each
  of them the list \<open>[[]]\<close> when it would have no entry, and gives the first \<open>nx\<close>
  names as the states, the next \<open>nu\<close> as the inputs and the rest as the outputs.
\<close>

theorem readlin_blocks:
  "wf_array (Arr2 r c rows) \<Longrightarrow> 0 \<le> nx \<Longrightarrow> nx \<le> int r \<Longrightarrow> nx \<le> int c \<Longrightarrow>
   aclass_item Aclass 0 = Inr (Some ''AlinearSystem'') \<Longrightarrow>
   get_floats data ''ABCD'' = Inr (Arr2 r c rows) \<Longrightarrow>
   get_ints data ''nx'' = Inr (Arr2 1 1 [[nx]]) \<Longrightarrow>
   get_strs data ''xuyName'' = Inr xuyName \<Longrightarrow>
   A = (if nx = 0 then empty_matrix
        else Arr2 (nat nx) (nat nx) (map (take (nat nx)) (take (nat nx) rows))) \<Longrightarrow>
   B = (if nx = 0 \<or> int c - nx = 0 then empty_matrix
        else Arr2 (nat nx) (c - nat nx) (map (drop (nat nx)) (take (nat nx) rows))) \<Longrightarrow>
   C = (if nx = 0 \<or> int r - nx = 0 then empty_matrix
        else Arr2 (r - nat nx) (nat nx) (map (take (nat nx)) (drop (nat nx) rows))) \<Longrightarrow>
   D = (if int c - nx = 0 \<or> int r - nx = 0 then empty_matrix
        else Arr2 (r - nat nx) (c - nat nx) (map (drop (nat nx)) (drop (nat nx) rows))) \<Longrightarrow>
   system_matrices (Arr2 r c rows) nx = Inr (int c - nx, int r - nx, A, B, C, D)
   \<and> wf_array A \<and> wf_array B \<and> wf_array C \<and> wf_array D
   \<and> readlin_body ss fname data Aclass =
       (case ss A B C D of
          Inl e \<Rightarrow> Inl e
        | Inr system \<Rightarrow>
            Inr \<lparr>sys = system,
                 state_names = take (nat nx) xuyName,
                 input_names = take (nat (int c - nx)) (drop (nat nx) xuyName),
                 output_names = drop c xuyName\<rparr>)"
proof -
  assume wf: "wf_array (Arr2 r c rows)" and nx: "0 \<le> nx" "nx \<le> int r" "nx \<le> int c"
    and kind: "aclass_item Aclass 0 = Inr (Some ''AlinearSystem'')"
    and abcd: "get_floats data ''ABCD'' = Inr (Arr2 r c rows)"
    and nxm: "get_ints data ''nx'' = Inr (Arr2 1 1 [[nx]])"
    and names: "get_strs data ''xuyName'' = Inr xuyName"
    and A: "A = (if nx = 0 then empty_matrix
        else Arr2 (nat nx) (nat nx) (map (take (nat nx)) (take (nat nx) rows)))"
    and B: "B = (if nx = 0 \<or> int c - nx = 0 then empty_matrix
        else Arr2 (nat nx) (c - nat nx) (map (drop (nat nx)) (take (nat nx) rows)))"
    and C: "C = (if nx = 0 \<or> int r - nx = 0 then empty_matrix
        else Arr2 (r - nat nx) (nat nx) (map (take (nat nx)) (drop (nat nx) rows)))"
    and D: "D = (if int c - nx = 0 \<or> int r - nx = 0 then empty_matrix
        else Arr2 (r - nat nx) (c - nat nx) (map (drop (nat nx)) (drop (nat nx) rows)))"
  have sr: "slice_bound r nx = nat nx" and sc: "slice_bound c nx = nat nx"
    using nx by (simp_all add: slice_bound_within)
  have st: "\<And>xs :: 'a list. slice_to nx xs = take (nat nx) xs"
    and sf: "\<And>xs :: 'a list. slice_from nx xs = drop (nat nx) xs"
    and stl: "\<And>xs :: 'a list list. slice_to nx xs = take (nat nx) xs"
    and sfl: "\<And>xs :: 'a list list. slice_from nx xs = drop (nat nx) xs"
    using nx by (simp_all add: slice_to_nonneg slice_from_nonneg)
  have bA: "block_A r c rows nx = Arr2 (nat nx) (nat nx) (map (take (nat nx)) (take (nat nx) rows))"
    by (simp add: block_A_def sr sc st stl)
  have bB: "block_B r c rows nx = Arr2 (nat nx) (c - nat nx) (map (drop (nat nx)) (take (nat nx) rows))"
    by (simp add: block_B_def sr sc sf stl)
  have bC: "block_C r c rows nx = Arr2 (r - nat nx) (nat nx) (map (take (nat nx)) (drop (nat nx) rows))"
    by (simp add: block_C_def sr sc st sfl)
  have bD: "block_D r c rows nx = Arr2 (r - nat nx) (c - nat nx) (map (drop (nat nx)) (drop (nat nx) rows))"
    by (simp add: block_D_def sr sc sf sfl)
  have sm: "system_matrices (Arr2 r c rows) nx = Inr (int c - nx, int r - nx, A, B, C, D)"
    using nx bA bB bC bD by (auto simp add: system_matrices_def Let_def A B C D)
  have len: "length rows = r" and all: "list_all (\<lambda>row. length row = c) rows"
    using wf by simp_all
  have all_take: "list_all (\<lambda>row. length row = c) (take (nat nx) rows)"
    and all_drop: "list_all (\<lambda>row. length row = c) (drop (nat nx) rows)"
    using all by (auto simp add: list_all_iff dest: in_set_takeD in_set_dropD)
  have wfA: "wf_array A"
    using nx len all_take by (auto simp add: A empty_matrix_def list_all_iff min_def)
  have wfB: "wf_array B"
    using nx len all_take by (auto simp add: B empty_matrix_def list_all_iff min_def)
  have wfC: "wf_array C"
    using nx len all_drop by (auto simp add: C empty_matrix_def list_all_iff min_def)
  have wfD: "wf_array D"
    using nx len all_drop by (auto simp add: D empty_matrix_def list_all_iff)
  have n1: "slice_to nx xuyName = take (nat nx) xuyName"
    using nx by (simp add: slice_to_nonneg)
  have n2: "slice_between nx (int c) xuyName
              = take (nat (int c - nx)) (drop (nat nx) xuyName)"
    using nx slice_between_nonneg [of nx "int c" xuyName] by simp
  have n3: "slice_from (int c) xuyName = drop c xuyName"
    using slice_from_nonneg [of "int c" xuyName] by simp
  have body: "readlin_body ss fname data Aclass =
       (case ss A B C D of
          Inl e \<Rightarrow> Inl e
        | Inr system \<Rightarrow>
            Inr \<lparr>sys = system,
                 state_names = take (nat nx) xuyName,
                 input_names = take (nat (int c - nx)) (drop (nat nx) xuyName),
                 output_names = drop c xuyName\<rparr>)"
    by (simp add: readlin_body_def kind abcd nxm names sm n1 n2 n3 split: sum.splits)
  show ?thesis using sm wfA wfB wfC wfD body by simp
qed

theorem readlin_blocks_witness:
  "system_matrices (Arr2 3 4 [[1, 2, 3, 4], [5, 6, 7, 8], [9, 10, 11, 12 :: int]]) 2
     = Inr (2, 1, Arr2 2 2 [[1, 2], [5, 6]], Arr2 2 2 [[3, 4], [7, 8]],
            Arr2 1 2 [[9, 10]], Arr2 1 2 [[11, 12]])
   \<and> readlin_body keep_matrices ''f''
        [(''ABCD'', Floats (Arr2 3 4 [[1, 2, 3, 4], [5, 6, 7, 8], [9, 10, 11, 12 :: int]])),
         (''nx'', Ints (Arr2 1 1 [[2]])),
         (''xuyName'', Strs [''x1'', ''x2'', ''u1'', ''u2'', ''y1''])]
        (Strs [''AlinearSystem'', ''1.0''])
     = Inr \<lparr>sys = (Arr2 2 2 [[1, 2], [5, 6]], Arr2 2 2 [[3, 4], [7, 8]],
                   Arr2 1 2 [[9, 10]], Arr2 1 2 [[11, 12]]),
            state_names = [''x1'', ''x2''], input_names = [''u1'', ''u2''],
            output_names = [''y1'']\<rparr>"
  using readlin_blocks [of 3 4 "[[1, 2, 3, 4], [5, 6, 7, 8], [9, 10, 11, 12 :: int]]" 2
      "Strs [''AlinearSystem'', ''1.0'']"
      "[(''ABCD'', Floats (Arr2 3 4 [[1, 2, 3, 4], [5, 6, 7, 8], [9, 10, 11, 12 :: int]])),
         (''nx'', Ints (Arr2 1 1 [[2]])),
         (''xuyName'', Strs [''x1'', ''x2'', ''u1'', ''u2'', ''y1''])]"
      "[''x1'', ''x2'', ''u1'', ''u2'', ''y1'']"
      "Arr2 2 2 [[1, 2], [5, 6]]" "Arr2 2 2 [[3, 4], [7, 8]]"
      "Arr2 1 2 [[9, 10]]" "Arr2 1 2 [[11, 12]]" keep_matrices "''f''"]
  by (simp add: getitem_def norm_index_def get_floats_def get_ints_def get_strs_def dict_get_def
        keep_matrices_def)

text \<open>
  C9. When the first line of \<open>Aclass\<close> is \<open>AlinearSystem\<close>, \<open>readsim\<close> raises an
  AssertionError that points to LinRes; when it is neither that nor \<open>Atrajectory\<close>,
  \<open>readsim\<close> raises an AssertionError that says the file is no simulation or
  linearization result; when it is \<open>Atrajectory\<close>, \<open>readlin\<close> raises an AssertionError
  that points to SimRes. In each case the error is all that is returned.
\<close>

theorem result_kind_mismatch:
  "(read ff fi fname f co = Inr (data, Aclass) \<and> aclass_item Aclass 0 = Inr (Some ''AlinearSystem'')
      \<longrightarrow> readsim ff fi units decode sv sd fname f co
            = Inl (AssertionError (fname @ '' is a linearization result.  Use LinRes instead.'')))
   \<and> (read ff fi fname2 f2 co2 = Inr (data2, Aclass2) \<and> aclass_item Aclass2 0 = Inr (Some kind)
        \<and> kind \<noteq> ''AlinearSystem'' \<and> kind \<noteq> ''Atrajectory''
      \<longrightarrow> readsim ff fi units decode sv sd fname2 f2 co2
            = Inl (AssertionError (fname2 @ '' is not a simulation or linearization result.'')))
   \<and> (read ff fi fname3 f3 False = Inr (data3, Aclass3) \<and> aclass_item Aclass3 0 = Inr (Some ''Atrajectory'')
      \<longrightarrow> readlin ff fi ss fname3 f3
            = Inl (AssertionError (fname3 @ '' is a simulation result.  Use SimRes instead.'')))"
  by (simp add: readsim_def readsim_body_def readlin_def readlin_body_def)

theorem result_kind_mismatch_witness:
  "readsim int_fromstring int_fromstring example_units Inr 1 ''T'' ''lin.mat''
     (Mat [(''Aclass'', Chars (Arr2 2 13 [''AlinearSystem'', ''1.0          ''])),
           (''nx'', Ints (Arr2 1 1 [[0]]))]) False
     = Inl (AssertionError ''lin.mat is a linearization result.  Use LinRes instead.'')
   \<and> readsim int_fromstring int_fromstring example_units Inr 1 ''T'' ''odd.mat''
     (Mat [(''Aclass'', Chars (Arr2 2 13 [''Asomething   '', ''1.1          ''])),
           (''nx'', Ints (Arr2 1 1 [[0]]))]) False
     = Inl (AssertionError ''odd.mat is not a simulation or linearization result.'')
   \<and> readlin int_fromstring int_fromstring keep_matrices ''sim.mat''
     (Mat [(''Aclass'', Chars (Arr2 2 11 [''Atrajectory'', ''1.1        ''])),
           (''data_1'', Floats (Arr2 1 1 [[0 :: int]]))])
     = Inl (AssertionError ''sim.mat is a simulation result.  Use SimRes instead.'')"
proof -
  have r1: "read int_fromstring int_fromstring ''lin.mat''
     (Mat [(''Aclass'', Chars (Arr2 2 13 [''AlinearSystem'', ''1.0          ''])),
           (''nx'', Ints (Arr2 1 1 [[0]]))]) False
     = Inr ([(''nx'', Ints (Arr2 1 1 [[0]]))], (Strs [''AlinearSystem'', ''1.0''] :: int matrix_value))"
    by (simp add: read_def select_names_def dict_remove_def is_transposed_def getitem_def
        norm_index_def rstrip_chars_def)
  have r2: "read int_fromstring int_fromstring ''odd.mat''
     (Mat [(''Aclass'', Chars (Arr2 2 13 [''Asomething   '', ''1.1          ''])),
           (''nx'', Ints (Arr2 1 1 [[0]]))]) False
     = Inr ([(''nx'', Ints (Arr2 1 1 [[0]]))], (Strs [''Asomething'', ''1.1''] :: int matrix_value))"
    by (simp add: read_def select_names_def dict_remove_def is_transposed_def getitem_def
        norm_index_def rstrip_chars_def)
  have r3: "read int_fromstring int_fromstring ''sim.mat''
     (Mat [(''Aclass'', Chars (Arr2 2 11 [''Atrajectory'', ''1.1        ''])),
           (''data_1'', Floats (Arr2 1 1 [[0 :: int]]))]) False
     = Inr ([(''data_1'', Floats (Arr2 1 1 [[0]]))], Strs [''Atrajectory'', ''1.1''])"
    by (simp add: read_def select_names_def dict_remove_def is_transposed_def getitem_def
        norm_index_def rstrip_chars_def)
  show ?thesis
    using result_kind_mismatch [where ff = int_fromstring and fi = int_fromstring
        and units = example_units and decode = Inr and sv = 1 and sd = "''T''" and ss = keep_matrices
        and fname = "''lin.mat''" and co = False
        and f = "Mat [(''Aclass'', Chars (Arr2 2 13 [''AlinearSystem'', ''1.0          ''])),
           (''nx'', Ints (Arr2 1 1 [[0]]))]"
        and data = "[(''nx'', Ints (Arr2 1 1 [[0]]))]" and Aclass = "Strs [''AlinearSystem'', ''1.0'']"
        and ?fname2.0 = "''odd.mat''" and ?co2.0 = False
        and ?f2.0 = "Mat [(''Aclass'', Chars (Arr2 2 13 [''Asomething   '', ''1.1          ''])),
           (''nx'', Ints (Arr2 1 1 [[0]]))]"
        and ?data2.0 = "[(''nx'', Ints (Arr2 1 1 [[0]]))]" and ?Aclass2.0 = "Strs [''Asomething'', ''1.1'']"
        and kind = "''Asomething''"
        and ?fname3.0 = "''sim.mat''"
        and ?f3.0 = "Mat [(''Aclass'', Chars (Arr2 2 11 [''Atrajectory'', ''1.1        ''])),
           (''data_1'', Floats (Arr2 1 1 [[0 :: int]]))]"
        and ?data3.0 = "[(''data_1'', Floats (Arr2 1 1 [[0]]))]" and ?Aclass3.0 = "Strs [''Atrajectory'', ''1.1'']"]
      r1 r2 r3
    by (simp add: getitem_def norm_index_def)
qed

text \<open>
  C7. For a file of version 1.0, \<open>readsim\<close> evaluates \<open>s._value\<close> for the scaling of the
  time; the name \<open>s\<close> is not bound, and the call ends in a NameError instead of the
  dictionary of the variables.
\<close>

theorem readsim_version_1_0:
  "readsim int_fromstring int_fromstring example_units Inr 1 ''T'' ''old.mat''
     (Mat [(''Aclass'', Chars (Arr2 2 11 [''Atrajectory'', ''1.0        ''])),
           (''names'', Chars (Arr2 2 4 [''Time'', ''x   ''])),
           (''data'', Floats (Arr2 2 2 [[0, 5], [1, 6]]))]) False
     = Inl (NameError ''s'')"
  by (simp add: readsim_def readsim_body_def read_def select_names_def dict_remove_def
        is_transposed_def getitem_def norm_index_def rstrip_chars_def get_floats_def dict_get_def
        global_s_value_def)

lemma replace_set: "set (replace old new s) \<subseteq> set s \<union> set new"
proof (induction old new s rule: replace.induct)
  case (1 old new s)
  show ?case
  proof (cases "s = [] \<or> old = []")
    case True
    then show ?thesis by (subst replace.simps) auto
  next
    case False
    show ?thesis
    proof (cases "take (length old) s = old")
      case True
      have "set (replace old new (drop (length old) s)) \<subseteq> set (drop (length old) s) \<union> set new"
        using 1(1) False True by simp
      moreover have "set (drop (length old) s) \<subseteq> set s"
        by (rule set_drop_subset)
      ultimately show ?thesis
        using False True by (subst replace.simps) auto
    next
      case nt: False
      have "set (replace old new (tl s)) \<subseteq> set (tl s) \<union> set new"
        using 1(2) False nt by simp
      moreover have "set (tl s) \<subseteq> set s" "hd s \<in> set s"
        using False by (cases s, auto)+
      ultimately show ?thesis
        using False nt by (subst replace.simps) auto
    qed
  qed
qed

lemma replace_char_absent: "c \<notin> set new \<Longrightarrow> c \<notin> set (replace [c] new s)"
proof (induction "[c]" new s rule: replace.induct)
  case (1 new s)
  show ?case
  proof (cases "s = []")
    case True
    then show ?thesis by (subst replace.simps) simp
  next
    case False
    show ?thesis
    proof (cases "take (length [c]) s = [c]")
      case True
      then have "c \<notin> set (replace [c] new (drop (length [c]) s))"
        using 1(1) 1(3) False by simp
      then show ?thesis
        using False True 1(3) by (subst replace.simps) auto
    next
      case nt: False
      then have "c \<notin> set (replace [c] new (tl s))"
        using 1(2) 1(3) False by simp
      moreover have "hd s \<noteq> c"
        using False nt by (cases s) auto
      ultimately show ?thesis
        using False nt by (subst replace.simps) auto
    qed
  qed
qed

lemma normalised_no_dot: "CHR ''.'' \<notin> set (replace ''Ohm'' ''ohm'' (replace ''.'' ''*'' u))"
proof -
  have "CHR ''.'' \<notin> set (replace ''.'' ''*'' u)"
    by (rule replace_char_absent) simp
  then show ?thesis
    using replace_set [of "''Ohm''" "''ohm''" "replace ''.'' ''*'' u"] by auto
qed

lemma normalised_no_bar:
  "CHR ''|'' \<notin> set u \<Longrightarrow> CHR ''|'' \<notin> set (replace ''Ohm'' ''ohm'' (replace ''.'' ''*'' u))"
  using replace_set [of "''Ohm''" "''ohm''" "replace ''.'' ''*'' u"]
    replace_set [of "''.''" "''*''" u] by auto

lemma rsplit1_cases:
  "rsplit1 sep s = [s] \<and> sep \<notin> set s
   \<or> (\<exists>a b. rsplit1 sep s = [a, b] \<and> sep \<in> set s \<and> set a \<subseteq> set s \<and> set b \<subseteq> set s)"
proof (cases "sep \<in> set s")
  case False
  then show ?thesis by (simp add: rsplit1_def)
next
  case True
  have "set (tl (dropWhile (\<lambda>c. c \<noteq> sep) (rev s))) \<subseteq> set s"
    by (metis list.sel(2) list.set_sel(2) set_dropWhileD set_rev subsetI)
  moreover have "set (takeWhile (\<lambda>c. c \<noteq> sep) (rev s)) \<subseteq> set s"
    using set_takeWhileD by fastforce
  ultimately show ?thesis using True by (simp add: rsplit1_def)
qed

lemma rstrip_chars_subset: "set (rstrip_chars cs s) \<subseteq> set s"
  unfolding rstrip_chars_def using set_dropWhileD by fastforce

text \<open>
  C6, as amended. \<open>parse_description\<close> gives the unit of \<open>F\<close>, the display unit \<open>F\<close> and
  the description \<open>Capacitance\<close> for \<open>Capacitance [F]\<close>. The dot and \<open>Ohm\<close> are replaced
  in the whole unit clause before it is split at the bar, so \<open>Resistance [Ohm|kOhm]\<close>
  has the unit of \<open>ohm\<close> and the display unit \<open>kohm\<close>. No unit or display unit has a
  dot, and without a bar the display unit is the normalized unit.
\<close>

theorem parse_description_units:
  "(units ''F'' = Inr uF \<and> decode ''Capacitance'' = Inr dC
      \<longrightarrow> parse_description units decode ''Capacitance [F]'' = Inr (uF, ''F'', dC))
   \<and> (units ''ohm'' = Inr uO \<and> decode ''Resistance'' = Inr dR
      \<longrightarrow> parse_description units decode ''Resistance [Ohm|kOhm]'' = Inr (uO, ''kohm'', dR))
   \<and> (parse_description Inr decode s = Inr (u, du, d)
      \<longrightarrow> CHR ''.'' \<notin> set u \<and> CHR ''.'' \<notin> set du \<and> (CHR ''|'' \<notin> set s \<longrightarrow> du = u))"
proof (intro conjI impI)
  assume "units ''F'' = Inr uF \<and> decode ''Capacitance'' = Inr dC"
  then show "parse_description units decode ''Capacitance [F]'' = Inr (uF, ''F'', dC)"
    by (simp add: parse_description_def rstrip_chars_def rsplit1_def replace.simps rstrip_def
        whitespace_def)
next
  assume "units ''ohm'' = Inr uO \<and> decode ''Resistance'' = Inr dR"
  then show "parse_description units decode ''Resistance [Ohm|kOhm]'' = Inr (uO, ''kohm'', dR)"
    by (simp add: parse_description_def rstrip_chars_def rsplit1_def replace.simps rstrip_def
        whitespace_def)
next
  assume a: "parse_description Inr decode s = Inr (u, du, d)"
  let ?s1 = "rstrip_chars '']'' s"
  show "CHR ''.'' \<notin> set u"
  proof (cases "CHR ''['' \<in> set ?s1")
    case False
    then show ?thesis
      using a by (auto simp add: parse_description_def rsplit1_def Let_def split: sum.splits)
  next
    case True
    then obtain d0 u0 where sp: "rsplit1 (CHR ''['') ?s1 = [d0, u0]"
      by (auto simp add: rsplit1_def)
    let ?n = "replace ''Ohm'' ''ohm'' (replace ''.'' ''*'' u0)"
    from rsplit1_cases [of "CHR ''|''" ?n] normalised_no_dot [of u0] a sp
    show ?thesis
      by (auto simp add: parse_description_def Let_def split: sum.splits)
  qed
  show "CHR ''.'' \<notin> set du"
  proof (cases "CHR ''['' \<in> set ?s1")
    case False
    then show ?thesis
      using a by (auto simp add: parse_description_def rsplit1_def Let_def split: sum.splits)
  next
    case True
    then obtain d0 u0 where sp: "rsplit1 (CHR ''['') ?s1 = [d0, u0]"
      by (auto simp add: rsplit1_def)
    let ?n = "replace ''Ohm'' ''ohm'' (replace ''.'' ''*'' u0)"
    from rsplit1_cases [of "CHR ''|''" ?n] normalised_no_dot [of u0] a sp
    show ?thesis
      by (auto simp add: parse_description_def Let_def split: sum.splits if_splits)
  qed
  show "du = u" if nb: "CHR ''|'' \<notin> set s"
  proof (cases "CHR ''['' \<in> set ?s1")
    case False
    then show ?thesis
      using a by (auto simp add: parse_description_def rsplit1_def Let_def split: sum.splits)
  next
    case True
    from rsplit1_cases [of "CHR ''[''" ?s1] True obtain d0 u0
      where sp: "rsplit1 (CHR ''['') ?s1 = [d0, u0]" and sub: "set u0 \<subseteq> set ?s1"
      by auto
    have "CHR ''|'' \<notin> set u0"
      using sub rstrip_chars_subset [of "'']''" s] nb by auto
    then have nn: "CHR ''|'' \<notin> set (replace ''Ohm'' ''ohm'' (replace ''.'' ''*'' u0))"
      by (rule normalised_no_bar)
    then have "rsplit1 (CHR ''|'') (replace ''Ohm'' ''ohm'' (replace ''.'' ''*'' u0))
                 = [replace ''Ohm'' ''ohm'' (replace ''.'' ''*'' u0)]"
      by (simp add: rsplit1_def)
    then show ?thesis
      using a sp by (auto simp add: parse_description_def Let_def split: sum.splits)
  qed
qed

text \<open>
  C6, as stated, fails: the display unit of \<open>Resistance [Ohm|kOhm]\<close> is \<open>kohm\<close>, not
  \<open>kOhm\<close>.
\<close>

theorem parse_description_display_unit_counterexample:
  "parse_description (Inr :: string \<Rightarrow> error + string) (Inr :: string \<Rightarrow> error + string)
       ''Resistance [Ohm|kOhm]'' = Inr (''ohm'', ''kohm'', ''Resistance'')
   \<and> parse_description (Inr :: string \<Rightarrow> error + string) (Inr :: string \<Rightarrow> error + string)
       ''Resistance [Ohm|kOhm]'' \<noteq> Inr (''ohm'', ''kOhm'', ''Resistance'')"
  by (simp add: parse_description_def rstrip_chars_def rsplit1_def replace.simps rstrip_def
      whitespace_def)

theorem parse_description_units_witness:
  "parse_description (Inr :: string \<Rightarrow> error + string) (Inr :: string \<Rightarrow> error + string)
       ''Capacitance [F]'' = Inr (''F'', ''F'', ''Capacitance'')
   \<and> parse_description (Inr :: string \<Rightarrow> error + string) (Inr :: string \<Rightarrow> error + string)
       ''Resistance [Ohm|kOhm]'' = Inr (''ohm'', ''kohm'', ''Resistance'')
   \<and> parse_description (Inr :: string \<Rightarrow> error + string) (Inr :: string \<Rightarrow> error + string)
       ''Torque [N.m]'' = Inr (''N*m'', ''N*m'', ''Torque'')
   \<and> CHR ''.'' \<notin> set ''N*m''"
proof -
  have t: "parse_description (Inr :: string \<Rightarrow> error + string) (Inr :: string \<Rightarrow> error + string)
       ''Torque [N.m]'' = Inr (''N*m'', ''N*m'', ''Torque'')"
    by (simp add: parse_description_def rstrip_chars_def rsplit1_def replace.simps rstrip_def
      whitespace_def)
  show ?thesis
    using parse_description_units [where units = "Inr :: string \<Rightarrow> error + string"
        and decode = "Inr :: string \<Rightarrow> error + string" and uF = "''F''" and dC = "''Capacitance''"
        and uO = "''ohm''" and dR = "''Resistance''"
        and s = "''Torque [N.m]''" and u = "''N*m''" and du = "''N*m''" and d = "''Torque''"] t
    by simp
qed

lemma before_hash_comment: "CHR ''#'' \<notin> set t \<Longrightarrow> before_hash (t @ CHR ''#'' # c) = t"
  by (auto simp add: before_hash_def takeWhile_tail)

lemma loadtxt_loop_eof: "loadtxt_loop ff fi variable_names data [] = Inr data"
  by (subst loadtxt_loop.simps) (simp add: next_nonblank_def)

lemma split_float_x:
  "SPLIT_DEFINITION ''float x (2,1)\<newline>'' = Some (''float'', ''x'', ''2'', ''1'')"
  by (simp add: SPLIT_DEFINITION_def word_char_def space_char_def digit_char_def)

lemma next_nonblank_float_x:
  "next_nonblank (''float x (2,1)\<newline>'' # f) = Some (''float x (2,1)\<newline>'', f)"
  by (simp add: next_nonblank_def whitespace_def)

text \<open>
  C8, as amended. With one header line and the block \<open>float x (2,1)\<close>, followed by
  two lines that each have one number and then a comment after \<open>#\<close>, \<open>loadtxt\<close> gives
  \<open>{x: [[v1, v2]]}\<close>: the numbers are read from the text before the \<open>#\<close>, and the
  parser of floats transposes the rows it has read, so the matrix is 1-by-2.
\<close>

theorem loadtxt_float_block:
  "CHR ''#'' \<notin> set t1 \<Longrightarrow> CHR ''#'' \<notin> set t2 \<Longrightarrow> ff t1 = [v1] \<Longrightarrow> ff t2 = [v2] \<Longrightarrow>
   loadtxt ff fi [h, ''float x (2,1)\<newline>'', t1 @ CHR ''#'' # c1, t2 @ CHR ''#'' # c2] None 1
     = Inr [(''x'', Floats (Arr2 1 2 [[v1, v2]]))]"
proof -
  assume a: "CHR ''#'' \<notin> set t1" "CHR ''#'' \<notin> set t2" "ff t1 = [v1]" "ff t2 = [v2]"
  let ?l1 = "t1 @ CHR ''#'' # c1" and ?l2 = "t2 @ CHR ''#'' # c2"
  have pf: "parse_float ff [?l1, ?l2] = Floats (Arr2 1 2 [[v1, v2]])"
    using a by (simp add: parse_float_def before_hash_comment column_def)
  have "loadtxt_loop ff fi None [] [''float x (2,1)\<newline>'', ?l1, ?l2]
          = Inr [(''x'', Floats (Arr2 1 2 [[v1, v2]]))]"
    by (subst loadtxt_loop.simps)
       (simp add: next_nonblank_float_x split_float_x next_lines_def nat_of_digits_def
          digit_val_def pf loadtxt_loop_eof)
  then show ?thesis
    by (simp add: loadtxt_def next_lines_def)
qed

lemma tokens_15: "tokens ''1.5 '' = [''1.5'']"
  by (simp add: tokens_def whitespace_def)

lemma tokens_25: "tokens ''2.5 '' = [''2.5'']"
  by (simp add: tokens_def whitespace_def)

theorem loadtxt_float_block_witness:
  "loadtxt tokens int_fromstring
     [''#1\<newline>'', ''float x (2,1)\<newline>'', ''1.5 # first\<newline>'', ''2.5 # second\<newline>''] None 1
     = Inr [(''x'', Floats (Arr2 1 2 [[''1.5'', ''2.5'']]))]"
  using loadtxt_float_block [of "''1.5 ''" "''2.5 ''" tokens "''1.5''" "''2.5''" int_fromstring
      "''#1\<newline>''" "'' first\<newline>''" "'' second\<newline>''"] tokens_15 tokens_25
  by simp

text \<open>
  C8, as stated, fails: the matrix that \<open>loadtxt\<close> gives for the block is
  \<open>[[v1, v2]]\<close>, not \<open>[[v1], [v2]]\<close>.
\<close>

theorem loadtxt_float_shape_counterexample:
  "loadtxt tokens int_fromstring
     [''#1\<newline>'', ''float x (2,1)\<newline>'', ''1.5 # first\<newline>'', ''2.5 # second\<newline>''] None 1
     = Inr [(''x'', Floats (Arr2 1 2 [[''1.5'', ''2.5'']]))]
   \<and> loadtxt tokens int_fromstring
     [''#1\<newline>'', ''float x (2,1)\<newline>'', ''1.5 # first\<newline>'', ''2.5 # second\<newline>''] None 1
     \<noteq> Inr [(''x'', Floats (Arr2 2 1 [[''1.5''], [''2.5'']]))]"
proof -
  have p: "parse_float tokens [''1.5 # first\<newline>'', ''2.5 # second\<newline>'']
             = Floats (Arr2 1 2 [[''1.5'', ''2.5'']])"
    by (simp add: parse_float_def before_hash_def tokens_15 tokens_25 column_def)
  have "loadtxt_loop tokens int_fromstring None []
          [''float x (2,1)\<newline>'', ''1.5 # first\<newline>'', ''2.5 # second\<newline>'']
          = Inr [(''x'', Floats (Arr2 1 2 [[''1.5'', ''2.5'']]))]"
    by (subst loadtxt_loop.simps)
       (simp add: next_nonblank_float_x split_float_x next_lines_def nat_of_digits_def
          digit_val_def p loadtxt_loop_eof)
  then have "loadtxt tokens int_fromstring
     [''#1\<newline>'', ''float x (2,1)\<newline>'', ''1.5 # first\<newline>'', ''2.5 # second\<newline>''] None 1
     = Inr [(''x'', Floats (Arr2 1 2 [[''1.5'', ''2.5'']]))]"
    by (simp add: loadtxt_def next_lines_def)
  then show ?thesis by simp
qed

subsection \<open>The loop of \<open>readsim\<close> over the rows of \<open>dataInfo\<close>\<close>

lemma create_variables_append:
  "create_variables U D T vars tm (xs @ ys)
     = (case create_variables U D T vars tm xs of
          Inl e \<Rightarrow> Inl e
        | Inr (T1, vars1, tm1) \<Rightarrow> create_variables U D T1 vars1 tm1 ys)"
proof (induction xs arbitrary: T vars tm)
  case Nil
  show ?case by simp
next
  case (Cons x xs)
  obtain desc row where x: "x = (desc, row)" by (cases x)
  show ?case
    by (simp add: x Cons.IH split: list.splits sum.splits prod.splits)
qed

lemma create_variables_single:
  "create_variables U D T vars tm [(desc, [ds, sc])]
     = (case make_variable U D T desc ds sc of
          Inl e \<Rightarrow> Inl e
        | Inr (T', v) \<Rightarrow> Inr (T', vars @ [v], Some (times_arr (samples v))))"
  by (simp split: sum.splits prod.splits)

lemma create_variables_row_shape:
  "create_variables U D T vars tm ((desc, row) # rest) = Inr res \<Longrightarrow> \<exists>ds sc. row = [ds, sc]"
  by (auto split: list.splits)

lemma create_variables_result:
  "create_variables U D T vars tm xs = Inr (T', vars', tm') \<Longrightarrow>
   length vars' = length vars + length xs \<and> take (length vars) vars' = vars
   \<and> (xs = [] \<longrightarrow> tm' = tm \<and> T' = T)
   \<and> (xs \<noteq> [] \<longrightarrow> tm' = Some (times_arr (samples (last vars'))))"
proof (induction xs arbitrary: T vars tm)
  case Nil
  then show ?case by simp
next
  case (Cons x xs)
  obtain desc row where x: "x = (desc, row)" by (cases x)
  from Cons.prems x obtain ds sc where row: "row = [ds, sc]"
    using create_variables_row_shape by blast
  from Cons.prems x row obtain T1 v where
    mv: "make_variable U D T desc ds sc = Inr (T1, v)"
    and rest: "create_variables U D T1 (vars @ [v]) (Some (times_arr (samples v))) xs = Inr (T', vars', tm')"
    by (auto split: sum.splits)
  from Cons.IH [OF rest] have
    l: "length vars' = length (vars @ [v]) + length xs"
    and t: "take (length (vars @ [v])) vars' = vars @ [v]"
    and e: "xs = [] \<longrightarrow> tm' = Some (times_arr (samples v)) \<and> T' = T1"
    and n: "xs \<noteq> [] \<longrightarrow> tm' = Some (times_arr (samples (last vars')))"
    by simp_all
  have "take (length vars) vars' = take (length vars) (take (length (vars @ [v])) vars')"
    by (simp add: min_def)
  then have t': "take (length vars) vars' = vars"
    by (simp only: t) simp
  have lastv: "xs = [] \<longrightarrow> last vars' = v"
  proof
    assume "xs = []"
    then have "take (length (vars @ [v])) vars' = vars'" using l by simp
    then have "vars' = vars @ [v]" using t by simp
    then show "last vars' = v" by simp
  qed
  show ?case
    using l t' e n lastv by auto
qed

lemma create_variables_prefix:
  assumes run: "create_variables U D T [] None zs = Inr (T', variables, tm)"
    and i: "i < length zs"
  shows "\<exists>Ti ti Tn ds sc.
           create_variables U D T [] None (take i zs) = Inr (Ti, take i variables, ti)
         \<and> snd (zs ! i) = [ds, sc]
         \<and> make_variable U D Ti (fst (zs ! i)) ds sc = Inr (Tn, variables ! i)
         \<and> create_variables U D T [] None (take (Suc i) zs)
             = Inr (Tn, take (Suc i) variables, Some (times_arr (samples (variables ! i))))
         \<and> create_variables U D Tn (take (Suc i) variables)
              (Some (times_arr (samples (variables ! i)))) (drop (Suc i) zs) = Inr (T', variables, tm)"
proof -
  have split: "zs = take i zs @ zs ! i # drop (Suc i) zs"
    using i by (simp add: id_take_nth_drop)
  obtain desc row where zi: "zs ! i = (desc, row)" by (cases "zs ! i")
  from run split have r1: "create_variables U D T [] None (take i zs @ zs ! i # drop (Suc i) zs)
       = Inr (T', variables, tm)" by simp
  then obtain Ti vsi ti where
    p: "create_variables U D T [] None (take i zs) = Inr (Ti, vsi, ti)"
    and c: "create_variables U D Ti vsi ti (zs ! i # drop (Suc i) zs) = Inr (T', variables, tm)"
    by (auto simp add: create_variables_append split: sum.splits)
  from c zi obtain ds sc where row: "row = [ds, sc]"
    using create_variables_row_shape by metis
  from c zi row obtain Tn v where
    mv: "make_variable U D Ti desc ds sc = Inr (Tn, v)"
    and rest: "create_variables U D Tn (vsi @ [v]) (Some (times_arr (samples v))) (drop (Suc i) zs)
                 = Inr (T', variables, tm)"
    by (auto split: sum.splits)
  from create_variables_result [OF p] i have lv: "length vsi = i" by simp
  from create_variables_result [OF rest] have
    tk: "take (length (vsi @ [v])) variables = vsi @ [v]" by simp
  then have tk1: "take (Suc i) variables = vsi @ [v]" using lv by simp
  have "variables ! i = take (Suc i) variables ! i" by simp
  then have "variables ! i = (vsi @ [v]) ! length vsi"
    using lv by (simp only: tk1)
  then have vi: "variables ! i = v" by simp
  have "take i variables = take i (take (Suc i) variables)" by (simp add: min_def)
  then have tki: "take i variables = vsi"
    using lv by (simp only: tk1) simp
  have s: "create_variables U D T [] None (take (Suc i) zs)
             = Inr (Tn, take (Suc i) variables, Some (times_arr (samples (variables ! i))))"
  proof -
    have "take (Suc i) zs = take i zs @ [(desc, [ds, sc])]"
      using i zi row by (simp add: take_Suc_conv_app_nth)
    then show ?thesis
      using p mv tk1 vi by (simp add: create_variables_append)
  qed
  show ?thesis
    using p tki zi row mv vi s rest tk1 by auto
qed

lemma col_index_shape: "shape2 a = shape2 b \<Longrightarrow> col_index a i = col_index b i"
  by (cases a; cases b) auto

lemma shape2_scale_column: "shape2 (scale_column j v a) = shape2 a"
  by (cases a) auto

lemma shapes_scale_view: "map shape2 (scale_view v ref T) = map shape2 T"
proof (cases ref)
  case (View k j)
  show ?thesis
  proof (cases "k < length T")
    case True
    then have "(map shape2 T)[k := shape2 (T ! k)] = map shape2 T"
      by (metis length_map list_update_id nth_map)
    then show ?thesis
      using View by (simp add: map_update shape2_scale_column)
  next
    case False
    then show ?thesis using View by (simp add: list_update_beyond)
  qed
next
  case (Owned xs)
  then show ?thesis by simp
qed

lemma select_samples_shapes:
  assumes "map shape2 T' = map shape2 T"
  shows "select_samples T' ds sc = select_samples T ds sc"
proof -
  have len: "length T' = length T"
    using assms by (metis length_map)
  have nth: "\<And>k. k < length T \<Longrightarrow> shape2 (T' ! k) = shape2 (T ! k)"
    using assms len by (metis nth_map)
  show ?thesis
  proof (cases "norm_index (length T) (ds - 1)")
    case None
    then show ?thesis by (simp add: select_samples_def len)
  next
    case (Some k)
    then have "k < length T" by (rule norm_index_less)
    then have "\<And>i. col_index (T' ! k) i = col_index (T ! k) i"
      using nth col_index_shape by blast
    then show ?thesis
      using Some by (simp add: select_samples_def len Let_def split: sum.splits)
  qed
qed

lemma make_variable_Inr:
  assumes "make_variable U D T desc ds sc = Inr (Tn, var)"
  shows "\<exists>unit du d neg tmv k j.
           parse_description U D desc = Inr (unit, du, d)
         \<and> select_samples T ds sc = Inr (neg, tmv, View k j)
         \<and> (case unit of
               ScalarUnit v dim \<Rightarrow>
                 Tn = (if v = 1 then T else T[k := scale_column j v (T ! k)])
                 \<and> var = \<lparr>samples = \<lparr>times_arr = tmv, signed_values = View k j, negated = neg\<rparr>,
                          dimension = Some dim, display_unit = Some du, description = Unicode d\<rparr>
             | LambdaUnit g dim \<Rightarrow>
                 Tn = T
                 \<and> var = \<lparr>samples = \<lparr>times_arr = tmv,
                                      signed_values =
                                        Owned (map g (if neg then map uminus (array_values T (View k j))
                                                      else array_values T (View k j))),
                                      negated = False\<rparr>,
                          dimension = Some dim, display_unit = Some du, description = Unicode d\<rparr>)"
proof -
  from assms obtain unit du d where p: "parse_description U D desc = Inr (unit, du, d)"
    by (auto simp add: make_variable_def split: sum.splits)
  from assms p obtain neg tmv sv where s: "select_samples T ds sc = Inr (neg, tmv, sv)"
    by (auto simp add: make_variable_def split: sum.splits)
  from select_samples_views [OF s] obtain k j where sv: "sv = View k j" by blast
  show ?thesis
  proof (cases unit)
    case (ScalarUnit v dim)
    then show ?thesis
      using assms p s sv by (auto simp add: make_variable_def)
  next
    case (LambdaUnit g dim)
    then show ?thesis
      using assms p s sv
      by (auto simp add: make_variable_def vectorize_def neg_array_def Let_def split: if_splits)
  qed
qed

lemma make_variable_shapes:
  assumes "make_variable U D T desc ds sc = Inr (Tn, var)"
  shows "map shape2 Tn = map shape2 T"
proof -
  from make_variable_Inr [OF assms] obtain unit k j where
    c: "case unit of
          ScalarUnit v dim \<Rightarrow> Tn = (if v = 1 then T else T[k := scale_column j v (T ! k)])
        | LambdaUnit g dim \<Rightarrow> Tn = T"
    by (fastforce split: natu_unit.splits)
  show ?thesis
  proof (cases unit)
    case (ScalarUnit v dim)
    then have "Tn = (if v = 1 then T else scale_view v (View k j) T)"
      using c by simp
    then show ?thesis
      using shapes_scale_view [of v "View k j" T] by (simp split: if_splits)
  next
    case (LambdaUnit g dim)
    then show ?thesis using c by simp
  qed
qed

lemma create_variables_shapes:
  "create_variables U D T vars tm xs = Inr (T', vars', tm') \<Longrightarrow> map shape2 T' = map shape2 T"
proof (induction xs arbitrary: T vars tm)
  case Nil
  then show ?case by simp
next
  case (Cons x xs)
  obtain desc row where x: "x = (desc, row)" by (cases x)
  from Cons.prems x obtain ds sc where row: "row = [ds, sc]"
    using create_variables_row_shape by blast
  from Cons.prems x row obtain T1 v where
    mv: "make_variable U D T desc ds sc = Inr (T1, v)"
    and rest: "create_variables U D T1 (vars @ [v]) (Some (times_arr (samples v))) xs = Inr (T', vars', tm')"
    by (auto split: sum.splits)
  show ?case
    using Cons.IH [OF rest] make_variable_shapes [OF mv] by simp
qed

lemma readsim_body_1_1:
  assumes "aclass_item Aclass 0 = Inr (Some ''Atrajectory'')"
    and "aclass_item Aclass 1 = Inr (Some ''1.1'')"
    and "get_strs data ''name'' = Inr names"
    and "extract_trajectories second_value data 1 [] = Inr trajectories"
    and "get_strs data ''description'' = Inr descriptions"
    and "get_ints data ''dataInfo'' = Inr dataInfo"
  shows "readsim_body units decode second_value second_dimension fname data Aclass
     = (case first_two_columns dataInfo of
          Inl e \<Rightarrow> Inl e
        | Inr rows \<Rightarrow>
            (case create_variables units decode trajectories [] None (zip descriptions rows) of
               Inl e \<Rightarrow> Inl e
             | Inr (trajectories', variables, times0) \<Rightarrow>
                 (case times0 of
                    None \<Rightarrow> Inl (NameError ''times'')
                  | Some t \<Rightarrow>
                      Inr (trajectories',
                           dict_set (dict_of_pairs (zip names variables)) ''Time''
                             \<lparr>samples = \<lparr>times_arr = t, signed_values = t, negated = False\<rparr>,
                              dimension = Some second_dimension,
                              display_unit = Some ''s'',
                              description = Str ''Time''\<rparr>))))"
  using assms by (simp add: readsim_body_def)

lemma select_samples_Inr:
  assumes "select_samples T ds sc = Inr (neg, tmv, sv)"
  shows "\<exists>k j. norm_index (length T) (ds - 1) = Some k
           \<and> col_index (T ! k) (\<bar>sc\<bar> - 1) = Inr j
           \<and> neg = (sc < 0) \<and> tmv = View k 0 \<and> sv = View k j"
proof -
  from assms obtain k where k: "norm_index (length T) (ds - 1) = Some k"
    by (auto simp add: select_samples_def Let_def split: option.splits)
  with assms obtain j where
    j: "col_index (T ! k) ((if sc < 0 then - sc else sc) - 1) = Inr j"
    by (auto simp add: select_samples_def Let_def split: sum.splits)
  with assms k obtain j0 where j0: "col_index (T ! k) 0 = Inr j0"
    by (auto simp add: select_samples_def Let_def split: sum.splits)
  from assms k j j0 have r: "neg = (sc < 0)" "tmv = View k j0" "sv = View k j"
    by (auto simp add: select_samples_def Let_def)
  from j0 have "j0 = 0" by (rule col_index_zero)
  moreover have "(if sc < 0 then - sc else sc) = \<bar>sc\<bar>" by simp
  ultimately show ?thesis using k j r by metis
qed

lemma first_two_columns_Inr:
  "first_two_columns a = Inr rows \<Longrightarrow> rows = map (take 2) (array_rows a)"
  by (cases a) auto

text \<open>
  C1. In a run of \<open>readsim\<close> on a file of version 1.1 that returns, there is one
  variable for each row of \<open>dataInfo\<close> that has a description, in the order of the
  rows, and the result maps the names to them, with the entry \<open>Time\<close> made of the
  times of the last one. For every row \<open>[data_set, sign_col]\<close> the matrix is
  \<open>trajectories[data_set - 1]\<close> and the column is its column \<open>abs(sign_col) - 1\<close>,
  counted from 0; \<open>times\<close> is the view of column 0 of that matrix. With a unit
  that has a scale factor \<open>signed_values\<close> is the view of the selected column and
  \<open>negated\<close> is \<open>sign_col < 0\<close>. With a LambdaUnit \<open>signed_values\<close> is a new array
  made of the selected column as it is when the row is reached, negated when
  \<open>sign_col < 0\<close>, and \<open>negated\<close> is false.
\<close>

theorem readsim_row_decoding:
  "aclass_item Aclass 0 = Inr (Some ''Atrajectory'') \<Longrightarrow>
   aclass_item Aclass 1 = Inr (Some ''1.1'') \<Longrightarrow>
   get_strs data ''name'' = Inr names \<Longrightarrow>
   extract_trajectories second_value data 1 [] = Inr trajectories \<Longrightarrow>
   get_strs data ''description'' = Inr descriptions \<Longrightarrow>
   get_ints data ''dataInfo'' = Inr dataInfo \<Longrightarrow>
   readsim_body units decode second_value second_dimension fname data Aclass
     = Inr (trajectories', result) \<Longrightarrow>
   \<exists>variables.
       length variables = min (length descriptions) (length (array_rows dataInfo))
     \<and> variables \<noteq> []
     \<and> result = dict_set (dict_of_pairs (zip names variables)) ''Time''
                  \<lparr>samples = \<lparr>times_arr = times_arr (samples (last variables)),
                              signed_values = times_arr (samples (last variables)),
                              negated = False\<rparr>,
                   dimension = Some second_dimension, display_unit = Some ''s'',
                   description = Str ''Time''\<rparr>
     \<and> (\<forall>i<length variables. \<exists>data_set sign_col k j unit du d.
           take 2 (array_rows dataInfo ! i) = [data_set, sign_col]
         \<and> norm_index (length trajectories) (data_set - 1) = Some k
         \<and> col_index (trajectories ! k) (\<bar>sign_col\<bar> - 1) = Inr j
         \<and> times_arr (samples (variables ! i)) = View k 0
         \<and> parse_description units decode (descriptions ! i) = Inr (unit, du, d)
         \<and> (case unit of
               ScalarUnit v dim \<Rightarrow>
                 signed_values (samples (variables ! i)) = View k j
                 \<and> negated (samples (variables ! i)) = (sign_col < 0)
             | LambdaUnit g dim \<Rightarrow>
                 (\<exists>Ti ti.
                     create_variables units decode trajectories [] None
                       (take i (zip descriptions (map (take 2) (array_rows dataInfo))))
                       = Inr (Ti, take i variables, ti)
                   \<and> signed_values (samples (variables ! i))
                       = Owned (map g (if sign_col < 0 then map uminus (array_values Ti (View k j))
                                       else array_values Ti (View k j))))
                 \<and> negated (samples (variables ! i)) = False))"
proof -
  assume kind: "aclass_item Aclass 0 = Inr (Some ''Atrajectory'')"
    and version: "aclass_item Aclass 1 = Inr (Some ''1.1'')"
    and names: "get_strs data ''name'' = Inr names"
    and trajs: "extract_trajectories second_value data 1 [] = Inr trajectories"
    and descs: "get_strs data ''description'' = Inr descriptions"
    and info: "get_ints data ''dataInfo'' = Inr dataInfo"
    and run: "readsim_body units decode second_value second_dimension fname data Aclass
                = Inr (trajectories', result)"
  note body = readsim_body_1_1 [OF kind version names trajs descs info,
      of units decode second_dimension fname]
  from run body obtain rows where ftc: "first_two_columns dataInfo = Inr rows"
    by (auto split: sum.splits)
  let ?zs = "zip descriptions rows"
  from run body ftc obtain variables t where
    cv: "create_variables units decode trajectories [] None ?zs = Inr (trajectories', variables, Some t)"
    and res: "result = dict_set (dict_of_pairs (zip names variables)) ''Time''
                  \<lparr>samples = \<lparr>times_arr = t, signed_values = t, negated = False\<rparr>,
                   dimension = Some second_dimension, display_unit = Some ''s'',
                   description = Str ''Time''\<rparr>"
    by (auto split: sum.splits option.splits)
  have rows: "rows = map (take 2) (array_rows dataInfo)"
    using ftc by (rule first_two_columns_Inr)
  from create_variables_result [OF cv] have
    len: "length variables = length ?zs"
    and e: "?zs = [] \<longrightarrow> Some t = None"
    and n: "?zs \<noteq> [] \<longrightarrow> Some t = Some (times_arr (samples (last variables)))"
    by auto
  from e have ne: "?zs \<noteq> []" by auto
  with n have t: "t = times_arr (samples (last variables))" by simp
  from ne have "length ?zs \<noteq> 0" by (metis length_0_conv)
  with len have vne: "variables \<noteq> []" by (metis list.size(3))
  have len': "length variables = min (length descriptions) (length (array_rows dataInfo))"
    using len rows by simp
  have per_row: "\<exists>data_set sign_col k j unit du d.
           take 2 (array_rows dataInfo ! i) = [data_set, sign_col]
         \<and> norm_index (length trajectories) (data_set - 1) = Some k
         \<and> col_index (trajectories ! k) (\<bar>sign_col\<bar> - 1) = Inr j
         \<and> times_arr (samples (variables ! i)) = View k 0
         \<and> parse_description units decode (descriptions ! i) = Inr (unit, du, d)
         \<and> (case unit of
               ScalarUnit v dim \<Rightarrow>
                 signed_values (samples (variables ! i)) = View k j
                 \<and> negated (samples (variables ! i)) = (sign_col < 0)
             | LambdaUnit g dim \<Rightarrow>
                 (\<exists>Ti ti.
                     create_variables units decode trajectories [] None
                       (take i (zip descriptions (map (take 2) (array_rows dataInfo))))
                       = Inr (Ti, take i variables, ti)
                   \<and> signed_values (samples (variables ! i))
                       = Owned (map g (if sign_col < 0 then map uminus (array_values Ti (View k j))
                                       else array_values Ti (View k j))))
                 \<and> negated (samples (variables ! i)) = False)"
    if i: "i < length variables" for i
  proof -
    from i len have iz: "i < length ?zs" by simp
    then have zi: "?zs ! i = (descriptions ! i, rows ! i)" by simp
    from iz rows have ri: "rows ! i = take 2 (array_rows dataInfo ! i)" by simp
    from create_variables_prefix [OF cv iz] zi obtain Ti ti Tn ds sc where
      pre: "create_variables units decode trajectories [] None (take i ?zs) = Inr (Ti, take i variables, ti)"
      and row: "rows ! i = [ds, sc]"
      and mv: "make_variable units decode Ti (descriptions ! i) ds sc = Inr (Tn, variables ! i)"
      by auto
    have sh: "map shape2 Ti = map shape2 trajectories"
      using pre by (rule create_variables_shapes)
    have pre': "create_variables units decode trajectories [] None
                  (take i (zip descriptions (map (take 2) (array_rows dataInfo))))
                  = Inr (Ti, take i variables, ti)"
      using pre rows by simp
    from make_variable_Inr [OF mv] obtain unit du d neg tmv k j where
      p: "parse_description units decode (descriptions ! i) = Inr (unit, du, d)"
      and s: "select_samples Ti ds sc = Inr (neg, tmv, View k j)"
      and c: "case unit of
               ScalarUnit v dim \<Rightarrow>
                 variables ! i = \<lparr>samples = \<lparr>times_arr = tmv, signed_values = View k j, negated = neg\<rparr>,
                          dimension = Some dim, display_unit = Some du, description = Unicode d\<rparr>
             | LambdaUnit g dim \<Rightarrow>
                 variables ! i = \<lparr>samples = \<lparr>times_arr = tmv,
                                      signed_values =
                                        Owned (map g (if neg then map uminus (array_values Ti (View k j))
                                                      else array_values Ti (View k j))),
                                      negated = False\<rparr>,
                          dimension = Some dim, display_unit = Some du, description = Unicode d\<rparr>"
      by (fastforce split: natu_unit.splits)
    from s select_samples_shapes [OF sh] have
      s': "select_samples trajectories ds sc = Inr (neg, tmv, View k j)" by simp
    from select_samples_Inr [OF s'] have
      k: "norm_index (length trajectories) (ds - 1) = Some k"
      and j: "col_index (trajectories ! k) (\<bar>sc\<bar> - 1) = Inr j"
      and neg: "neg = (sc < 0)" and tmv: "tmv = View k 0"
      by auto
    have r2: "take 2 (array_rows dataInfo ! i) = [ds, sc]"
      using ri row by simp
    have "times_arr (samples (variables ! i)) = View k 0
         \<and> (case unit of
               ScalarUnit v dim \<Rightarrow>
                 signed_values (samples (variables ! i)) = View k j
                 \<and> negated (samples (variables ! i)) = (sc < 0)
             | LambdaUnit g dim \<Rightarrow>
                 (\<exists>Ti ti.
                     create_variables units decode trajectories [] None
                       (take i (zip descriptions (map (take 2) (array_rows dataInfo))))
                       = Inr (Ti, take i variables, ti)
                   \<and> signed_values (samples (variables ! i))
                       = Owned (map g (if sc < 0 then map uminus (array_values Ti (View k j))
                                       else array_values Ti (View k j))))
                 \<and> negated (samples (variables ! i)) = False)"
    proof (cases unit)
      case (ScalarUnit v dim)
      then show ?thesis using c neg tmv by simp
    next
      case (LambdaUnit g dim)
      with c neg tmv have
        sv: "signed_values (samples (variables ! i))
               = Owned (map g (if sc < 0 then map uminus (array_values Ti (View k j))
                               else array_values Ti (View k j)))"
        and ng: "negated (samples (variables ! i)) = False"
        and tm: "times_arr (samples (variables ! i)) = View k 0"
        by simp_all
      from pre' sv have
        "\<exists>Ti ti.
            create_variables units decode trajectories [] None
              (take i (zip descriptions (map (take 2) (array_rows dataInfo))))
              = Inr (Ti, take i variables, ti)
          \<and> signed_values (samples (variables ! i))
              = Owned (map g (if sc < 0 then map uminus (array_values Ti (View k j))
                              else array_values Ti (View k j)))"
        by blast
      with ng tm LambdaUnit show ?thesis by simp
    qed
    with r2 k j p show ?thesis by blast
  qed
  show ?thesis
    using len' vne res t per_row by blast
qed

lemma example_kind: "aclass_item (Strs [''Atrajectory'', ''1.1''] :: int matrix_value) 0 = Inr (Some ''Atrajectory'')"
  by (simp add: getitem_def norm_index_def)

lemma example_version: "aclass_item (Strs [''Atrajectory'', ''1.1''] :: int matrix_value) 1 = Inr (Some ''1.1'')"
  by (simp add: getitem_def norm_index_def)

lemma example_names: "get_strs example_simulation ''name'' = Inr [''Time'', ''R'', ''T'', ''last'']"
  by (simp add: get_strs_def dict_get_def example_simulation_def)

lemma example_descriptions:
  "get_strs example_simulation ''description'' = Inr [''Time in [s]'', ''R [kOhm]'', ''T [degC]'', '''']"
  by (simp add: get_strs_def dict_get_def example_simulation_def)

lemma example_dataInfo:
  "get_ints example_simulation ''dataInfo''
     = Inr (Arr2 4 4 [[1, 1, 0, -1], [2, -3, 0, -1], [2, 2, 0, -1], [0, 0, 0, -1]])"
  by (simp add: get_ints_def dict_get_def example_simulation_def)

lemma example_extract:
  "extract_trajectories 1 example_simulation 1 [] = Inr example_trajectories"
  by code_simp

lemma make_variable_step:
  assumes mv: "make_variable units decode Ti desc ds sc = Inr (Tn, var)"
  shows "\<exists>unit du d neg tmv k j.
      parse_description units decode desc = Inr (unit, du, d)
      \<and> select_samples Ti ds sc = Inr (neg, tmv, View k j)
      \<and> times_arr (samples var) = tmv
      \<and> (case unit of
               LambdaUnit g dim \<Rightarrow>
                 Tn = Ti
                 \<and> var
                     = \<lparr>samples = \<lparr>times_arr = tmv,
                                   signed_values =
                                     Owned (map g (if neg then map uminus (array_values Ti (View k j))
                                                   else array_values Ti (View k j))),
                                   negated = False\<rparr>,
                        dimension = Some dim, display_unit = Some du, description = Unicode d\<rparr>
             | ScalarUnit v dim \<Rightarrow>
                 Tn = (if v = 1 then Ti else Ti[k := scale_column j v (Ti ! k)])
                 \<and> var
                     = \<lparr>samples = \<lparr>times_arr = tmv, signed_values = View k j, negated = neg\<rparr>,
                        dimension = Some dim, display_unit = Some du, description = Unicode d\<rparr>
                 \<and> (wf_array (Ti ! k) \<and> v \<noteq> 1
                      \<longrightarrow> array_values Tn (View k j) = map (\<lambda>x. x * v) (array_values Ti (View k j))))"
proof -
  from assms obtain unit du d where p: "parse_description units decode desc = Inr (unit, du, d)"
    by (auto simp add: make_variable_def split: sum.splits)
  from assms p obtain neg tmv sv where s0: "select_samples Ti ds sc = Inr (neg, tmv, sv)"
    by (auto simp add: make_variable_def split: sum.splits)
  from select_samples_views [OF s0] obtain k j r c rows where
    sv: "sv = View k j" and kl: "k < length Ti" and tk: "Ti ! k = Arr2 r c rows" and jc: "j < c"
    by blast
  from s0 sv have s: "select_samples Ti ds sc = Inr (neg, tmv, View k j)" by simp
  have inplace: "wf_array (Ti ! k) \<Longrightarrow>
        array_values (Ti[k := scale_column j v (Ti ! k)]) (View k j)
          = map (\<lambda>x. x * v) (array_values Ti (View k j))" for v
    using kl tk jc by (auto simp add: column_scaled)
  show ?thesis
  proof (cases unit)
    case (ScalarUnit v dim)
    have a: "Tn = (if v = 1 then Ti else Ti[k := scale_column j v (Ti ! k)])"
      and b: "var = \<lparr>samples = \<lparr>times_arr = tmv, signed_values = View k j, negated = neg\<rparr>,
                        dimension = Some dim, display_unit = Some du, description = Unicode d\<rparr>"
      using assms p s ScalarUnit by (auto simp add: make_variable_def)
    have c: "wf_array (Ti ! k) \<and> v \<noteq> 1
                      \<longrightarrow> array_values Tn (View k j) = map (\<lambda>x. x * v) (array_values Ti (View k j))"
      using a inplace [of v] by simp
    have d: "times_arr (samples var) = tmv" using b by simp
    show ?thesis
      apply (rule exI [of _ unit], rule exI [of _ du], rule exI [of _ d], rule exI [of _ neg],
          rule exI [of _ tmv], rule exI [of _ k], rule exI [of _ j])
      using p s a b c d ScalarUnit by simp
  next
    case (LambdaUnit g dim)
    have a: "Tn = Ti"
      and b: "var = \<lparr>samples = \<lparr>times_arr = tmv,
                                   signed_values =
                                     Owned (map g (if neg then map uminus (array_values Ti (View k j))
                                                   else array_values Ti (View k j))),
                                   negated = False\<rparr>,
                        dimension = Some dim, display_unit = Some du, description = Unicode d\<rparr>"
      using assms p s LambdaUnit
      by (auto simp add: make_variable_def vectorize_def neg_array_def Let_def split: if_splits)
    have d: "times_arr (samples var) = tmv" using b by simp
    show ?thesis
      apply (rule exI [of _ unit], rule exI [of _ du], rule exI [of _ d], rule exI [of _ neg],
          rule exI [of _ tmv], rule exI [of _ k], rule exI [of _ j])
      using p s a b d LambdaUnit by simp
  qed
qed

lemma create_variables_row:
  assumes cv: "create_variables units decode trajectories [] None (zip descriptions rows)
                 = Inr (trajectories', variables, tm)"
    and i: "i < length variables"
  shows "\<exists>Ti Tn ti data_set sign_col neg tmv k j unit du d.
           rows ! i = [data_set, sign_col]
         \<and> parse_description units decode (descriptions ! i) = Inr (unit, du, d)
         \<and> create_variables units decode trajectories [] None (take i (zip descriptions rows))
             = Inr (Ti, take i variables, ti)
         \<and> create_variables units decode trajectories [] None (take (Suc i) (zip descriptions rows))
             = Inr (Tn, take (Suc i) variables, Some tmv)
         \<and> (Suc i = length variables \<longrightarrow> Tn = trajectories')
         \<and> select_samples Ti data_set sign_col = Inr (neg, tmv, View k j)
         \<and> (case unit of
               LambdaUnit g dim \<Rightarrow>
                 Tn = Ti
                 \<and> variables ! i
                     = \<lparr>samples = \<lparr>times_arr = tmv,
                                   signed_values =
                                     Owned (map g (if neg then map uminus (array_values Ti (View k j))
                                                   else array_values Ti (View k j))),
                                   negated = False\<rparr>,
                        dimension = Some dim, display_unit = Some du, description = Unicode d\<rparr>
             | ScalarUnit v dim \<Rightarrow>
                 Tn = (if v = 1 then Ti else Ti[k := scale_column j v (Ti ! k)])
                 \<and> variables ! i
                     = \<lparr>samples = \<lparr>times_arr = tmv, signed_values = View k j, negated = neg\<rparr>,
                        dimension = Some dim, display_unit = Some du, description = Unicode d\<rparr>
                 \<and> (wf_array (Ti ! k) \<and> v \<noteq> 1
                      \<longrightarrow> array_values Tn (View k j) = map (\<lambda>x. x * v) (array_values Ti (View k j))))"
proof -
  let ?zs = "zip descriptions rows"
  from create_variables_result [OF cv] have len: "length variables = length ?zs" by simp
  from i len have iz: "i < length ?zs" by simp
  then have zi: "?zs ! i = (descriptions ! i, rows ! i)" by simp
  from create_variables_prefix [OF cv iz] zi obtain Ti ti Tn ds sc where
    pre: "create_variables units decode trajectories [] None (take i ?zs) = Inr (Ti, take i variables, ti)"
    and row: "rows ! i = [ds, sc]"
    and mv: "make_variable units decode Ti (descriptions ! i) ds sc = Inr (Tn, variables ! i)"
    and suc: "create_variables units decode trajectories [] None (take (Suc i) ?zs)
           = Inr (Tn, take (Suc i) variables, Some (times_arr (samples (variables ! i))))"
    by auto
  have final: "Suc i = length variables \<longrightarrow> Tn = trajectories'"
  proof
    assume "Suc i = length variables"
    then have "take (Suc i) ?zs = ?zs" using len by simp
    then show "Tn = trajectories'" using suc cv by simp
  qed
  from make_variable_step [OF mv] obtain unit du d neg tmv k j where
    p: "parse_description units decode (descriptions ! i) = Inr (unit, du, d)"
    and s: "select_samples Ti ds sc = Inr (neg, tmv, View k j)"
    and tm: "times_arr (samples (variables ! i)) = tmv"
    and c: "(case unit of
               LambdaUnit g dim \<Rightarrow>
                 Tn = Ti
                 \<and> variables ! i
                     = \<lparr>samples = \<lparr>times_arr = tmv,
                                   signed_values =
                                     Owned (map g (if neg then map uminus (array_values Ti (View k j))
                                                   else array_values Ti (View k j))),
                                   negated = False\<rparr>,
                        dimension = Some dim, display_unit = Some du, description = Unicode d\<rparr>
             | ScalarUnit v dim \<Rightarrow>
                 Tn = (if v = 1 then Ti else Ti[k := scale_column j v (Ti ! k)])
                 \<and> variables ! i
                     = \<lparr>samples = \<lparr>times_arr = tmv, signed_values = View k j, negated = neg\<rparr>,
                        dimension = Some dim, display_unit = Some du, description = Unicode d\<rparr>
                 \<and> (wf_array (Ti ! k) \<and> v \<noteq> 1
                      \<longrightarrow> array_values Tn (View k j) = map (\<lambda>x. x * v) (array_values Ti (View k j))))"
    by (elim exE conjE)
  from suc tm have suc': "create_variables units decode trajectories [] None (take (Suc i) ?zs)
           = Inr (Tn, take (Suc i) variables, Some tmv)" by simp
  show ?thesis
    apply (rule exI [of _ Ti], rule exI [of _ Tn], rule exI [of _ ti], rule exI [of _ ds],
        rule exI [of _ sc], rule exI [of _ neg], rule exI [of _ tmv], rule exI [of _ k],
        rule exI [of _ j], rule exI [of _ unit], rule exI [of _ du], rule exI [of _ d])
    using row p pre suc' final s c by (intro conjI)
qed

text \<open>
  C4. In a run of \<open>readsim\<close> on a file of version 1.1 that returns, the variables
  are those of the loop over the rows of \<open>dataInfo\<close>, and the trajectories that the
  run leaves are those after its last row. Row \<open>i\<close> takes the trajectories \<open>Ti\<close> left
  by the rows before it. With a LambdaUnit the negation is made at once on the
  values of the selected column, the unit's function is applied to each of them,
  \<open>negated\<close> is false and the trajectories stay as they are, so every variable of
  such a unit has \<open>negated = false\<close>. With a unit that has a scale factor \<open>v\<close> the
  variable keeps the view of the column and the sign; when \<open>v\<close> is not 1 the column
  of the matrix is multiplied by \<open>v\<close> in place, so that the view reads the scaled
  values, and when \<open>v\<close> is 1 the trajectories stay as they are.
\<close>

theorem readsim_unit_scaling:
  "aclass_item Aclass 0 = Inr (Some ''Atrajectory'') \<Longrightarrow>
   aclass_item Aclass 1 = Inr (Some ''1.1'') \<Longrightarrow>
   get_strs data ''name'' = Inr names \<Longrightarrow>
   extract_trajectories second_value data 1 [] = Inr trajectories \<Longrightarrow>
   get_strs data ''description'' = Inr descriptions \<Longrightarrow>
   get_ints data ''dataInfo'' = Inr dataInfo \<Longrightarrow>
   readsim_body units decode second_value second_dimension fname data Aclass
     = Inr (trajectories', result) \<Longrightarrow>
   \<exists>rows variables.
       first_two_columns dataInfo = Inr rows
     \<and> create_variables units decode trajectories [] None (zip descriptions rows)
         = Inr (trajectories', variables, Some (times_arr (samples (last variables))))
     \<and> result = dict_set (dict_of_pairs (zip names variables)) ''Time''
                  \<lparr>samples = \<lparr>times_arr = times_arr (samples (last variables)),
                              signed_values = times_arr (samples (last variables)),
                              negated = False\<rparr>,
                   dimension = Some second_dimension, display_unit = Some ''s'',
                   description = Str ''Time''\<rparr>
     \<and> (\<forall>i<length variables. \<exists>Ti Tn ti data_set sign_col neg tmv k j unit du d.
           rows ! i = [data_set, sign_col]
         \<and> parse_description units decode (descriptions ! i) = Inr (unit, du, d)
         \<and> create_variables units decode trajectories [] None (take i (zip descriptions rows))
             = Inr (Ti, take i variables, ti)
         \<and> create_variables units decode trajectories [] None (take (Suc i) (zip descriptions rows))
             = Inr (Tn, take (Suc i) variables, Some tmv)
         \<and> (Suc i = length variables \<longrightarrow> Tn = trajectories')
         \<and> select_samples Ti data_set sign_col = Inr (neg, tmv, View k j)
         \<and> (case unit of
               LambdaUnit g dim \<Rightarrow>
                 Tn = Ti
                 \<and> variables ! i
                     = \<lparr>samples = \<lparr>times_arr = tmv,
                                   signed_values =
                                     Owned (map g (if neg then map uminus (array_values Ti (View k j))
                                                   else array_values Ti (View k j))),
                                   negated = False\<rparr>,
                        dimension = Some dim, display_unit = Some du, description = Unicode d\<rparr>
             | ScalarUnit v dim \<Rightarrow>
                 Tn = (if v = 1 then Ti else Ti[k := scale_column j v (Ti ! k)])
                 \<and> variables ! i
                     = \<lparr>samples = \<lparr>times_arr = tmv, signed_values = View k j, negated = neg\<rparr>,
                        dimension = Some dim, display_unit = Some du, description = Unicode d\<rparr>
                 \<and> (wf_array (Ti ! k) \<and> v \<noteq> 1
                      \<longrightarrow> array_values Tn (View k j) = map (\<lambda>x. x * v) (array_values Ti (View k j)))))"
proof -
  assume kind: "aclass_item Aclass 0 = Inr (Some ''Atrajectory'')"
    and version: "aclass_item Aclass 1 = Inr (Some ''1.1'')"
    and names: "get_strs data ''name'' = Inr names"
    and trajs: "extract_trajectories second_value data 1 [] = Inr trajectories"
    and descs: "get_strs data ''description'' = Inr descriptions"
    and info: "get_ints data ''dataInfo'' = Inr dataInfo"
    and run: "readsim_body units decode second_value second_dimension fname data Aclass
                = Inr (trajectories', result)"
  note body = readsim_body_1_1 [OF kind version names trajs descs info,
      of units decode second_dimension fname]
  from run body obtain rows where ftc: "first_two_columns dataInfo = Inr rows"
    by (auto split: sum.splits)
  let ?zs = "zip descriptions rows"
  from run body ftc obtain variables t where
    cv: "create_variables units decode trajectories [] None ?zs = Inr (trajectories', variables, Some t)"
    and res: "result = dict_set (dict_of_pairs (zip names variables)) ''Time''
                  \<lparr>samples = \<lparr>times_arr = t, signed_values = t, negated = False\<rparr>,
                   dimension = Some second_dimension, display_unit = Some ''s'',
                   description = Str ''Time''\<rparr>"
    by (auto split: sum.splits option.splits)
  from create_variables_result [OF cv] have
    e: "?zs = [] \<longrightarrow> Some t = None"
    and n: "?zs \<noteq> [] \<longrightarrow> Some t = Some (times_arr (samples (last variables)))"
    by auto
  from e have ne: "?zs \<noteq> []" by auto
  with n have t: "t = times_arr (samples (last variables))" by simp
  have per_row: "\<forall>i<length variables. \<exists>Ti Tn ti data_set sign_col neg tmv k j unit du d.
           rows ! i = [data_set, sign_col]
         \<and> parse_description units decode (descriptions ! i) = Inr (unit, du, d)
         \<and> create_variables units decode trajectories [] None (take i (zip descriptions rows))
             = Inr (Ti, take i variables, ti)
         \<and> create_variables units decode trajectories [] None (take (Suc i) (zip descriptions rows))
             = Inr (Tn, take (Suc i) variables, Some tmv)
         \<and> (Suc i = length variables \<longrightarrow> Tn = trajectories')
         \<and> select_samples Ti data_set sign_col = Inr (neg, tmv, View k j)
         \<and> (case unit of
               LambdaUnit g dim \<Rightarrow>
                 Tn = Ti
                 \<and> variables ! i
                     = \<lparr>samples = \<lparr>times_arr = tmv,
                                   signed_values =
                                     Owned (map g (if neg then map uminus (array_values Ti (View k j))
                                                   else array_values Ti (View k j))),
                                   negated = False\<rparr>,
                        dimension = Some dim, display_unit = Some du, description = Unicode d\<rparr>
             | ScalarUnit v dim \<Rightarrow>
                 Tn = (if v = 1 then Ti else Ti[k := scale_column j v (Ti ! k)])
                 \<and> variables ! i
                     = \<lparr>samples = \<lparr>times_arr = tmv, signed_values = View k j, negated = neg\<rparr>,
                        dimension = Some dim, display_unit = Some du, description = Unicode d\<rparr>
                 \<and> (wf_array (Ti ! k) \<and> v \<noteq> 1
                      \<longrightarrow> array_values Tn (View k j) = map (\<lambda>x. x * v) (array_values Ti (View k j))))"
    using create_variables_row [OF cv] by (intro allI impI)
  from cv t have cv': "create_variables units decode trajectories [] None ?zs
         = Inr (trajectories', variables, Some (times_arr (samples (last variables))))" by simp
  from res t have res': "result = dict_set (dict_of_pairs (zip names variables)) ''Time''
                  \<lparr>samples = \<lparr>times_arr = times_arr (samples (last variables)),
                              signed_values = times_arr (samples (last variables)),
                              negated = False\<rparr>,
                   dimension = Some second_dimension, display_unit = Some ''s'',
                   description = Str ''Time''\<rparr>" by simp
  show ?thesis
    apply (rule exI [of _ rows], rule exI [of _ variables])
    using ftc cv' res' per_row by (intro conjI)
qed

lemma make_variable_no_IndexError:
  assumes "parse_description units decode desc = Inr (unit, du, d)"
    and "select_samples T ds sc = Inr (neg, tmv, sv)"
  shows "make_variable units decode T desc ds sc \<noteq> Inl IndexError"
  using assms
  by (cases unit) (auto simp add: make_variable_def vectorize_def Let_def split: if_splits)

lemma make_variable_scalar:
  assumes "parse_description units decode desc = Inr (ScalarUnit v dim, du, d)"
    and "select_samples T ds sc = Inr (neg, tmv, View k j)"
  shows "make_variable units decode T desc ds sc
           = Inr (if v = 1 then T else T[k := scale_column j v (T ! k)],
                  \<lparr>samples = \<lparr>times_arr = tmv, signed_values = View k j, negated = neg\<rparr>,
                   dimension = Some dim, display_unit = Some du, description = Unicode d\<rparr>)"
  using assms by (simp add: make_variable_def)

lemma make_variable_IndexError:
  assumes "parse_description units decode desc = Inr (unit, du, d)"
    and "select_samples T ds sc = Inl IndexError"
  shows "make_variable units decode T desc ds sc = Inl IndexError"
  using assms by (simp add: make_variable_def)

lemma create_variables_next:
  assumes pre: "create_variables units decode trajectories [] None (take i zs) = Inr (Ti, vs, ti)"
    and i: "i < length zs" and zi: "zs ! i = (desc, [ds, sc])"
  shows "create_variables units decode trajectories [] None (take (Suc i) zs)
           = (case make_variable units decode Ti desc ds sc of
                Inl e \<Rightarrow> Inl e
              | Inr (Tn, v) \<Rightarrow> Inr (Tn, vs @ [v], Some (times_arr (samples v))))"
proof -
  have "take (Suc i) zs = take i zs @ [(desc, [ds, sc])]"
    using i zi by (simp add: take_Suc_conv_app_nth)
  then show ?thesis
    using pre by (simp add: create_variables_append create_variables_single del: create_variables.simps)
qed

lemma create_variables_error:
  assumes "create_variables units decode trajectories [] None (take n zs) = Inl e"
  shows "create_variables units decode trajectories [] None zs = Inl e"
proof -
  have "zs = take n zs @ drop n zs" by simp
  then have "create_variables units decode trajectories [] None zs
      = create_variables units decode trajectories [] None (take n zs @ drop n zs)" by simp
  then show ?thesis
    using assms by (simp only: create_variables_append) simp
qed

text \<open>
  C10, as amended. In \<open>readsim\<close> on a file of version 1.1, a row of \<open>dataInfo\<close> whose
  sign column is 0 and whose matrix has a column raises no IndexError: \<open>negated\<close> is
  false and the index \<open>-1\<close> selects the last column of the matrix. A row whose data
  set is 0, in a file that has a trajectory matrix, selects the last of the
  matrices by the index \<open>-1\<close>, and raises no IndexError when its column is there.
  With a unit that has a scale factor the loop goes on with the variable of that
  column. In a file with no trajectory matrix a data set of 0, and in a matrix of
  no column a sign column of 0, raise IndexError, and so does \<open>readsim\<close>.
\<close>

theorem readsim_zero_entries:
  "aclass_item Aclass 0 = Inr (Some ''Atrajectory'') \<Longrightarrow>
   aclass_item Aclass 1 = Inr (Some ''1.1'') \<Longrightarrow>
   get_strs data ''name'' = Inr names \<Longrightarrow>
   extract_trajectories second_value data 1 [] = Inr trajectories \<Longrightarrow>
   get_strs data ''description'' = Inr descriptions \<Longrightarrow>
   get_ints data ''dataInfo'' = Inr dataInfo \<Longrightarrow>
   first_two_columns dataInfo = Inr rows \<Longrightarrow>
   i < length (zip descriptions rows) \<Longrightarrow>
   create_variables units decode trajectories [] None (take i (zip descriptions rows))
     = Inr (Ti, vs, ti) \<Longrightarrow>
   rows ! i = [data_set, sign_col] \<Longrightarrow>
   parse_description units decode (descriptions ! i) = Inr (unit, du, d) \<Longrightarrow>
   (sign_col = 0 \<and> norm_index (length trajectories) (data_set - 1) = Some k
      \<and> trajectories ! k = Arr2 r c m \<and> 0 < c
    \<longrightarrow> select_samples Ti data_set sign_col = Inr (False, View k 0, View k (c - 1))
        \<and> create_variables units decode trajectories [] None (take (Suc i) (zip descriptions rows))
            \<noteq> Inl IndexError
        \<and> (\<forall>v dim. unit = ScalarUnit v dim \<longrightarrow>
              create_variables units decode trajectories [] None (take (Suc i) (zip descriptions rows))
                = Inr (if v = 1 then Ti else Ti[k := scale_column (c - 1) v (Ti ! k)],
                       vs @ [\<lparr>samples = \<lparr>times_arr = View k 0, signed_values = View k (c - 1),
                                         negated = False\<rparr>,
                              dimension = Some dim, display_unit = Some du,
                              description = Unicode d\<rparr>],
                       Some (View k 0))))
   \<and> (data_set = 0 \<and> trajectories \<noteq> [] \<and> last trajectories = Arr2 r' c' m'
      \<and> norm_index c' (\<bar>sign_col\<bar> - 1) = Some j
    \<longrightarrow> select_samples Ti data_set sign_col
          = Inr (sign_col < 0, View (length trajectories - 1) 0, View (length trajectories - 1) j)
        \<and> create_variables units decode trajectories [] None (take (Suc i) (zip descriptions rows))
            \<noteq> Inl IndexError
        \<and> (\<forall>v dim. unit = ScalarUnit v dim \<longrightarrow>
              create_variables units decode trajectories [] None (take (Suc i) (zip descriptions rows))
                = Inr (if v = 1 then Ti
                       else Ti[length trajectories - 1
                                 := scale_column j v (Ti ! (length trajectories - 1))],
                       vs @ [\<lparr>samples = \<lparr>times_arr = View (length trajectories - 1) 0,
                                         signed_values = View (length trajectories - 1) j,
                                         negated = (sign_col < 0)\<rparr>,
                              dimension = Some dim, display_unit = Some du,
                              description = Unicode d\<rparr>],
                       Some (View (length trajectories - 1) 0))))
   \<and> ((data_set = 0 \<and> trajectories = [])
        \<or> (sign_col = 0 \<and> norm_index (length trajectories) (data_set - 1) = Some k0
            \<and> trajectories ! k0 = Arr2 r0 0 m0)
    \<longrightarrow> create_variables units decode trajectories [] None (take (Suc i) (zip descriptions rows))
          = Inl IndexError
        \<and> readsim_body units decode second_value second_dimension fname data Aclass
          = Inl IndexError)"
proof -
  assume kind: "aclass_item Aclass 0 = Inr (Some ''Atrajectory'')"
    and version: "aclass_item Aclass 1 = Inr (Some ''1.1'')"
    and names: "get_strs data ''name'' = Inr names"
    and trajs: "extract_trajectories second_value data 1 [] = Inr trajectories"
    and descs: "get_strs data ''description'' = Inr descriptions"
    and info: "get_ints data ''dataInfo'' = Inr dataInfo"
    and ftc: "first_two_columns dataInfo = Inr rows"
    and iz: "i < length (zip descriptions rows)"
    and pre: "create_variables units decode trajectories [] None (take i (zip descriptions rows))
                = Inr (Ti, vs, ti)"
    and row: "rows ! i = [data_set, sign_col]"
    and p: "parse_description units decode (descriptions ! i) = Inr (unit, du, d)"
  let ?zs = "zip descriptions rows"
  let ?next = "create_variables units decode trajectories [] None (take (Suc i) ?zs)"
  note body = readsim_body_1_1 [OF kind version names trajs descs info,
      of units decode second_dimension fname]
  have zi: "?zs ! i = (descriptions ! i, [data_set, sign_col])"
    using iz row by simp
  have nxt: "?next = (case make_variable units decode Ti (descriptions ! i) data_set sign_col of
                Inl e \<Rightarrow> Inl e
              | Inr (Tn, v) \<Rightarrow> Inr (Tn, vs @ [v], Some (times_arr (samples v))))"
    using pre iz zi by (rule create_variables_next)
  have sh: "map shape2 Ti = map shape2 trajectories"
    using pre by (rule create_variables_shapes)
  have sel: "select_samples Ti data_set sign_col = select_samples trajectories data_set sign_col"
    using sh by (rule select_samples_shapes)
  have ok: "select_samples Ti data_set sign_col = Inr (neg, tmv, View kk jj) \<Longrightarrow>
      ?next \<noteq> Inl IndexError
      \<and> (\<forall>v dim. unit = ScalarUnit v dim \<longrightarrow>
            ?next = Inr (if v = 1 then Ti else Ti[kk := scale_column jj v (Ti ! kk)],
                       vs @ [\<lparr>samples = \<lparr>times_arr = tmv, signed_values = View kk jj,
                                         negated = neg\<rparr>,
                              dimension = Some dim, display_unit = Some du,
                              description = Unicode d\<rparr>],
                       Some tmv))" for neg tmv kk jj
  proof -
    assume s: "select_samples Ti data_set sign_col = Inr (neg, tmv, View kk jj)"
    have a: "?next \<noteq> Inl IndexError"
      using make_variable_no_IndexError [OF p s] nxt by (auto split: sum.splits)
    have b: "\<forall>v dim. unit = ScalarUnit v dim \<longrightarrow>
            ?next = Inr (if v = 1 then Ti else Ti[kk := scale_column jj v (Ti ! kk)],
                       vs @ [\<lparr>samples = \<lparr>times_arr = tmv, signed_values = View kk jj,
                                         negated = neg\<rparr>,
                              dimension = Some dim, display_unit = Some du,
                              description = Unicode d\<rparr>],
                       Some tmv)"
    proof (intro allI impI)
      fix v dim
      assume u: "unit = ScalarUnit v dim"
      from p u have p': "parse_description units decode (descriptions ! i) = Inr (ScalarUnit v dim, du, d)"
        by simp
      show "?next = Inr (if v = 1 then Ti else Ti[kk := scale_column jj v (Ti ! kk)],
                       vs @ [\<lparr>samples = \<lparr>times_arr = tmv, signed_values = View kk jj,
                                         negated = neg\<rparr>,
                              dimension = Some dim, display_unit = Some du,
                              description = Unicode d\<rparr>],
                       Some tmv)"
        using make_variable_scalar [OF p' s] nxt by simp
    qed
    from a b show ?thesis by (rule conjI)
  qed
  have A: "sign_col = 0 \<and> norm_index (length trajectories) (data_set - 1) = Some k
      \<and> trajectories ! k = Arr2 r c m \<and> 0 < c
    \<longrightarrow> select_samples Ti data_set sign_col = Inr (False, View k 0, View k (c - 1))
        \<and> ?next \<noteq> Inl IndexError
        \<and> (\<forall>v dim. unit = ScalarUnit v dim \<longrightarrow>
              ?next
                = Inr (if v = 1 then Ti else Ti[k := scale_column (c - 1) v (Ti ! k)],
                       vs @ [\<lparr>samples = \<lparr>times_arr = View k 0, signed_values = View k (c - 1),
                                         negated = False\<rparr>,
                              dimension = Some dim, display_unit = Some du,
                              description = Unicode d\<rparr>],
                       Some (View k 0)))"
  proof
    assume h: "sign_col = 0 \<and> norm_index (length trajectories) (data_set - 1) = Some k
      \<and> trajectories ! k = Arr2 r c m \<and> 0 < c"
    then have "select_samples trajectories data_set 0 = Inr (False, View k 0, View k (c - 1))"
      using select_samples_zero_entries [of trajectories data_set k r c m] by simp
    with sel h have s: "select_samples Ti data_set sign_col = Inr (False, View k 0, View k (c - 1))"
      by simp
    from ok [OF s] s show "select_samples Ti data_set sign_col = Inr (False, View k 0, View k (c - 1))
        \<and> ?next \<noteq> Inl IndexError
        \<and> (\<forall>v dim. unit = ScalarUnit v dim \<longrightarrow>
              ?next
                = Inr (if v = 1 then Ti else Ti[k := scale_column (c - 1) v (Ti ! k)],
                       vs @ [\<lparr>samples = \<lparr>times_arr = View k 0, signed_values = View k (c - 1),
                                         negated = False\<rparr>,
                              dimension = Some dim, display_unit = Some du,
                              description = Unicode d\<rparr>],
                       Some (View k 0)))"
      by (intro conjI) simp_all
  qed
  have B: "data_set = 0 \<and> trajectories \<noteq> [] \<and> last trajectories = Arr2 r' c' m'
      \<and> norm_index c' (\<bar>sign_col\<bar> - 1) = Some j
    \<longrightarrow> select_samples Ti data_set sign_col
          = Inr (sign_col < 0, View (length trajectories - 1) 0, View (length trajectories - 1) j)
        \<and> ?next \<noteq> Inl IndexError
        \<and> (\<forall>v dim. unit = ScalarUnit v dim \<longrightarrow>
              ?next
                = Inr (if v = 1 then Ti
                       else Ti[length trajectories - 1
                                 := scale_column j v (Ti ! (length trajectories - 1))],
                       vs @ [\<lparr>samples = \<lparr>times_arr = View (length trajectories - 1) 0,
                                         signed_values = View (length trajectories - 1) j,
                                         negated = (sign_col < 0)\<rparr>,
                              dimension = Some dim, display_unit = Some du,
                              description = Unicode d\<rparr>],
                       Some (View (length trajectories - 1) 0)))"
  proof
    assume h: "data_set = 0 \<and> trajectories \<noteq> [] \<and> last trajectories = Arr2 r' c' m'
      \<and> norm_index c' (\<bar>sign_col\<bar> - 1) = Some j"
    then have "select_samples trajectories 0 sign_col
          = Inr (sign_col < 0, View (length trajectories - 1) 0, View (length trajectories - 1) j)"
      using select_samples_zero_entries [of trajectories _ _ _ _ _ r' c' m' sign_col j] by simp
    with sel h have s: "select_samples Ti data_set sign_col
          = Inr (sign_col < 0, View (length trajectories - 1) 0, View (length trajectories - 1) j)"
      by simp
    from ok [OF s] s show "select_samples Ti data_set sign_col
          = Inr (sign_col < 0, View (length trajectories - 1) 0, View (length trajectories - 1) j)
        \<and> ?next \<noteq> Inl IndexError
        \<and> (\<forall>v dim. unit = ScalarUnit v dim \<longrightarrow>
              ?next
                = Inr (if v = 1 then Ti
                       else Ti[length trajectories - 1
                                 := scale_column j v (Ti ! (length trajectories - 1))],
                       vs @ [\<lparr>samples = \<lparr>times_arr = View (length trajectories - 1) 0,
                                         signed_values = View (length trajectories - 1) j,
                                         negated = (sign_col < 0)\<rparr>,
                              dimension = Some dim, display_unit = Some du,
                              description = Unicode d\<rparr>],
                       Some (View (length trajectories - 1) 0)))"
      by (intro conjI) simp_all
  qed
  have C: "(data_set = 0 \<and> trajectories = [])
        \<or> (sign_col = 0 \<and> norm_index (length trajectories) (data_set - 1) = Some k0
            \<and> trajectories ! k0 = Arr2 r0 0 m0)
    \<longrightarrow> ?next = Inl IndexError
        \<and> readsim_body units decode second_value second_dimension fname data Aclass
          = Inl IndexError"
  proof
    assume h: "(data_set = 0 \<and> trajectories = [])
        \<or> (sign_col = 0 \<and> norm_index (length trajectories) (data_set - 1) = Some k0
            \<and> trajectories ! k0 = Arr2 r0 0 m0)"
    then have "select_samples trajectories data_set sign_col = Inl IndexError"
      by (auto simp add: select_samples_def norm_index_def)
    with sel have "select_samples Ti data_set sign_col = Inl IndexError" by simp
    then have "make_variable units decode Ti (descriptions ! i) data_set sign_col = Inl IndexError"
      using p by (rule make_variable_IndexError [rotated])
    with nxt have e: "?next = Inl IndexError" by simp
    then have "create_variables units decode trajectories [] None ?zs = Inl IndexError"
      by (rule create_variables_error)
    then have "readsim_body units decode second_value second_dimension fname data Aclass
          = Inl IndexError"
      using body ftc by simp
    with e show "?next = Inl IndexError
        \<and> readsim_body units decode second_value second_dimension fname data Aclass
          = Inl IndexError" by simp
  qed
  from A B C show ?thesis by (intro conjI)
qed

subsection \<open>The layout of a binary file\<close>

lemma getitem_3: "getitem xs 3 = (if length xs < 4 then Inl IndexError else Inr (xs ! 3))"
  by (auto simp add: getitem_def norm_index_def)

text \<open>
  C3, as amended. For a binary file \<open>read\<close> takes the layout from \<open>Aclass[3]\<close>, the
  fourth line of \<open>Aclass\<close>. Without a fourth line, or with the fourth line
  \<open>binNormal\<close>, nothing is transposed: every character matrix becomes its list of
  strings and the other matrices stay. With the fourth line \<open>binTrans\<close> every
  matrix that is not of characters is transposed, and a character matrix is
  transposed before it becomes its list of strings. Any other fourth line raises
  AssertionError.
\<close>

theorem read_layout:
  "map_of (select_names (if constants_only then Some constants_names else None) d) ''Aclass''
     = Some (Chars a) \<Longrightarrow>
   get_strings a = Inr Aclass \<Longrightarrow>
   data = dict_remove ''Aclass'' (select_names (if constants_only then Some constants_names else None) d) \<Longrightarrow>
   (length Aclass < 4 \<or> (4 \<le> length Aclass \<and> Aclass ! 3 = ''binNormal'')
      \<longrightarrow> read ff fi fname (Mat d) constants_only
            = (case update_items (\<lambda>name. undo_transposition False) data of
                 Inl e \<Rightarrow> Inl e
               | Inr data' \<Rightarrow> Inr (data', Strs Aclass)))
   \<and> (4 \<le> length Aclass \<and> Aclass ! 3 = ''binTrans''
      \<longrightarrow> read ff fi fname (Mat d) constants_only
            = (case update_items (\<lambda>name. undo_transposition True) data of
                 Inl e \<Rightarrow> Inl e
               | Inr data' \<Rightarrow> Inr (data', Strs Aclass)))
   \<and> (4 \<le> length Aclass \<and> Aclass ! 3 \<noteq> ''binNormal'' \<and> Aclass ! 3 \<noteq> ''binTrans''
      \<longrightarrow> (\<exists>msg. read ff fi fname (Mat d) constants_only = Inl (AssertionError msg)))
   \<and> undo_transposition True (Floats m) = Inr (Floats (transpose_T m))
   \<and> undo_transposition True (Ints n) = Inr (Ints (transpose_T n))
   \<and> undo_transposition True (Chars c)
       = (case get_strings (transpose_T c) of Inl e \<Rightarrow> Inl e | Inr ls \<Rightarrow> Inr (Strs ls))
   \<and> undo_transposition False (Floats m) = Inr (Floats m)
   \<and> undo_transposition False (Ints n) = Inr (Ints n)
   \<and> undo_transposition False (Chars c)
       = (case get_strings c of Inl e \<Rightarrow> Inl e | Inr ls \<Rightarrow> Inr (Strs ls))"
proof -
  assume ac: "map_of (select_names (if constants_only then Some constants_names else None) d) ''Aclass''
     = Some (Chars a)"
    and gs: "get_strings a = Inr Aclass"
    and data: "data = dict_remove ''Aclass'' (select_names (if constants_only then Some constants_names else None) d)"
  have r: "read ff fi fname (Mat d) constants_only
     = (case is_transposed Aclass of
          Inl e \<Rightarrow> Inl e
        | Inr transposed \<Rightarrow>
            (case update_items (\<lambda>name. undo_transposition transposed) data of
               Inl e \<Rightarrow> Inl e
             | Inr data' \<Rightarrow> Inr (data', Strs Aclass)))"
    unfolding data using ac gs by (cases constants_only) (simp_all add: read_def Let_def)
  have n: "length Aclass < 4 \<or> (4 \<le> length Aclass \<and> Aclass ! 3 = ''binNormal'')
      \<longrightarrow> is_transposed Aclass = Inr False"
    by (auto simp add: is_transposed_def getitem_3)
  have t: "4 \<le> length Aclass \<and> Aclass ! 3 = ''binTrans'' \<longrightarrow> is_transposed Aclass = Inr True"
    by (auto simp add: is_transposed_def getitem_3)
  have e: "4 \<le> length Aclass \<and> Aclass ! 3 \<noteq> ''binNormal'' \<and> Aclass ! 3 \<noteq> ''binTrans''
      \<longrightarrow> (\<exists>msg. is_transposed Aclass = Inl (AssertionError msg))"
    by (auto simp add: is_transposed_def getitem_3)
  show ?thesis
    using r n t e by auto
qed

lemma transpose_example_chars: "transpose_T (Arr2 2 3 [''xy '', ''ab '']) = Arr2 3 2 [''xa'', ''yb'', ''  '']"
  by code_simp

lemma transpose_example_floats: "transpose_T (Arr2 2 3 [[1, 2, 3], [4, 5, 6 :: int]]) = Arr2 3 2 [[1, 4], [2, 5], [3, 6]]"
  by code_simp

theorem read_layout_witness:
  "read int_fromstring int_fromstring ''f.mat''
     (Mat [(''Aclass'', Chars (Arr2 4 11 [''Atrajectory'', ''1.1        '', ''           '', ''binTrans   ''])),
           (''name'', Chars (Arr2 2 3 [''xy '', ''ab ''])),
           (''data_1'', Floats (Arr2 2 3 [[1, 2, 3], [4, 5, 6 :: int]]))]) False
     = Inr ([(''name'', Strs [''xa'', ''yb'', '''']), (''data_1'', Floats (Arr2 3 2 [[1, 4], [2, 5], [3, 6]]))],
            Strs [''Atrajectory'', ''1.1'', [], ''binTrans''])
   \<and> read int_fromstring int_fromstring ''f.mat''
     (Mat [(''Aclass'', Chars (Arr2 4 11 [''Atrajectory'', ''1.1        '', ''           '', ''binNormal  ''])),
           (''data_1'', Floats (Arr2 2 3 [[1, 2, 3], [4, 5, 6 :: int]]))]) False
     = Inr ([(''data_1'', Floats (Arr2 2 3 [[1, 2, 3], [4, 5, 6]]))],
            Strs [''Atrajectory'', ''1.1'', [], ''binNormal''])
   \<and> (\<exists>msg. read int_fromstring int_fromstring ''f.mat''
     (Mat [(''Aclass'', Chars (Arr2 4 11 [''Atrajectory'', ''1.1        '', ''           '', ''binOther   ''])),
           (''data_1'', Floats (Arr2 2 3 [[1, 2, 3], [4, 5, 6 :: int]]))]) False = Inl (AssertionError msg))"
proof -
  have a: "read int_fromstring int_fromstring ''f.mat''
     (Mat [(''Aclass'', Chars (Arr2 4 11 [''Atrajectory'', ''1.1        '', ''           '', ''binTrans   ''])),
           (''name'', Chars (Arr2 2 3 [''xy '', ''ab ''])),
           (''data_1'', Floats (Arr2 2 3 [[1, 2, 3], [4, 5, 6 :: int]]))]) False
     = Inr ([(''name'', Strs [''xa'', ''yb'', '''']), (''data_1'', Floats (Arr2 3 2 [[1, 4], [2, 5], [3, 6]]))],
            Strs [''Atrajectory'', ''1.1'', [], ''binTrans''])"
    using read_layout [where constants_only = False
        and d = "[(''Aclass'', Chars (Arr2 4 11 [''Atrajectory'', ''1.1        '', ''           '', ''binTrans   ''])),
           (''name'', Chars (Arr2 2 3 [''xy '', ''ab ''])),
           (''data_1'', Floats (Arr2 2 3 [[1, 2, 3], [4, 5, 6 :: int]]))]"
        and a = "Arr2 4 11 [''Atrajectory'', ''1.1        '', ''           '', ''binTrans   '']"
        and Aclass = "[''Atrajectory'', ''1.1'', [], ''binTrans'']"
        and data = "[(''name'', Chars (Arr2 2 3 [''xy '', ''ab ''])),
           (''data_1'', Floats (Arr2 2 3 [[1, 2, 3], [4, 5, 6 :: int]]))]"
        and ff = int_fromstring and fi = int_fromstring and fname = "''f.mat''"]
    by (simp add: select_names_def dict_remove_def rstrip_chars_def transpose_example_chars
        transpose_example_floats del: transpose_T.simps)
  have b: "read int_fromstring int_fromstring ''f.mat''
     (Mat [(''Aclass'', Chars (Arr2 4 11 [''Atrajectory'', ''1.1        '', ''           '', ''binNormal  ''])),
           (''data_1'', Floats (Arr2 2 3 [[1, 2, 3], [4, 5, 6 :: int]]))]) False
     = Inr ([(''data_1'', Floats (Arr2 2 3 [[1, 2, 3], [4, 5, 6]]))],
            Strs [''Atrajectory'', ''1.1'', [], ''binNormal''])"
    using read_layout [where constants_only = False
        and d = "[(''Aclass'', Chars (Arr2 4 11 [''Atrajectory'', ''1.1        '', ''           '', ''binNormal  ''])),
           (''data_1'', Floats (Arr2 2 3 [[1, 2, 3], [4, 5, 6 :: int]]))]"
        and a = "Arr2 4 11 [''Atrajectory'', ''1.1        '', ''           '', ''binNormal  '']"
        and Aclass = "[''Atrajectory'', ''1.1'', [], ''binNormal'']"
        and data = "[(''data_1'', Floats (Arr2 2 3 [[1, 2, 3], [4, 5, 6 :: int]]))]"
        and ff = int_fromstring and fi = int_fromstring and fname = "''f.mat''"]
    by (simp add: select_names_def dict_remove_def rstrip_chars_def)
  have c: "\<exists>msg. read int_fromstring int_fromstring ''f.mat''
     (Mat [(''Aclass'', Chars (Arr2 4 11 [''Atrajectory'', ''1.1        '', ''           '', ''binOther   ''])),
           (''data_1'', Floats (Arr2 2 3 [[1, 2, 3], [4, 5, 6 :: int]]))]) False = Inl (AssertionError msg)"
    using read_layout [where constants_only = False
        and d = "[(''Aclass'', Chars (Arr2 4 11 [''Atrajectory'', ''1.1        '', ''           '', ''binOther   ''])),
           (''data_1'', Floats (Arr2 2 3 [[1, 2, 3], [4, 5, 6 :: int]]))]"
        and a = "Arr2 4 11 [''Atrajectory'', ''1.1        '', ''           '', ''binOther   '']"
        and Aclass = "[''Atrajectory'', ''1.1'', [], ''binOther'']"
        and data = "[(''data_1'', Floats (Arr2 2 3 [[1, 2, 3], [4, 5, 6 :: int]]))]"
        and ff = int_fromstring and fi = int_fromstring and fname = "''f.mat''"]
    by (simp add: select_names_def dict_remove_def rstrip_chars_def)
  from a b c show ?thesis by (intro conjI)
qed

text \<open>
  C3, as stated, fails: with an \<open>Aclass\<close> of three lines whose third is \<open>binTrans\<close>
  the matrix is not transposed, and with a third line that is no layout nothing
  is raised.
\<close>

theorem read_layout_third_line_counterexample:
  "read int_fromstring int_fromstring ''f.mat''
     (Mat [(''Aclass'', Chars (Arr2 3 11 [''Atrajectory'', ''1.1        '', ''binTrans   ''])),
           (''data_1'', Floats (Arr2 2 1 [[1], [2 :: int]]))]) False
     = Inr ([(''data_1'', Floats (Arr2 2 1 [[1], [2]]))], Strs [''Atrajectory'', ''1.1'', ''binTrans''])
   \<and> read int_fromstring int_fromstring ''f.mat''
     (Mat [(''Aclass'', Chars (Arr2 3 11 [''Atrajectory'', ''1.1        '', ''binTrans   ''])),
           (''data_1'', Floats (Arr2 2 1 [[1], [2 :: int]]))]) False
     \<noteq> Inr ([(''data_1'', Floats (Arr2 1 2 [[1, 2]]))], Strs [''Atrajectory'', ''1.1'', ''binTrans''])
   \<and> read int_fromstring int_fromstring ''f.mat''
     (Mat [(''Aclass'', Chars (Arr2 3 11 [''Atrajectory'', ''1.1        '', ''binOther   ''])),
           (''data_1'', Floats (Arr2 2 1 [[1], [2 :: int]]))]) False
     = Inr ([(''data_1'', Floats (Arr2 2 1 [[1], [2]]))], Strs [''Atrajectory'', ''1.1'', ''binOther''])"
  by (simp add: read_def select_names_def dict_remove_def is_transposed_def getitem_def
        norm_index_def rstrip_chars_def column_def)

text \<open>
  C10, as stated, fails: a data set of 0 in a file with no \<open>data_N\<close> matrix, and a
  sign column of 0 for a matrix of no column, raise IndexError.
\<close>

theorem readsim_zero_entries_counterexample:
  "readsim_body example_units Inr 1 ''time'' ''f.mat''
     [(''name'', Strs [''x'']), (''description'', Strs [''x'']),
      (''dataInfo'', Ints (Arr2 1 4 [[0, 1, 0, -1]]))]
     (Strs [''Atrajectory'', ''1.1'']) = Inl IndexError
   \<and> readsim_body example_units Inr 1 ''time'' ''f.mat''
     [(''name'', Strs [''x'']), (''description'', Strs [''x'']),
      (''dataInfo'', Ints (Arr2 1 4 [[1, 0, 0, -1]])),
      (''data_1'', Floats (Arr2 2 0 [[], []]))]
     (Strs [''Atrajectory'', ''1.1'']) = Inl IndexError"
  by code_simp

subsection \<open>The example run\<close>

lemma example_run_final:
  "readsim_body example_units Inr 1 ''time'' ''f.mat'' example_simulation (Strs [''Atrajectory'', ''1.1''])
     = Inr (example_final, example_variables)"
  by code_simp

theorem readsim_row_decoding_witness:
  "readsim_body example_units Inr 1 ''time'' ''f.mat'' example_simulation (Strs [''Atrajectory'', ''1.1''])
     = Inr (example_final, example_variables)
   \<and> (\<exists>variables.
       length variables = min (length [''Time in [s]'', ''R [kOhm]'', ''T [degC]'', '''']) (length (array_rows (Arr2 4 4 [[1, 1, 0, -1], [2, -3, 0, -1], [2, 2, 0, -1], [0, 0, 0, -1]] :: int ndarray)))
     \<and> variables \<noteq> []
     \<and> example_variables = dict_set (dict_of_pairs (zip [''Time'', ''R'', ''T'', ''last''] variables)) ''Time''
                  \<lparr>samples = \<lparr>times_arr = times_arr (samples (last variables)),
                              signed_values = times_arr (samples (last variables)),
                              negated = False\<rparr>,
                   dimension = Some ''time'', display_unit = Some ''s'',
                   description = Str ''Time''\<rparr>
     \<and> (\<forall>i<length variables. \<exists>data_set sign_col k j unit du d.
           take 2 (array_rows (Arr2 4 4 [[1, 1, 0, -1], [2, -3, 0, -1], [2, 2, 0, -1], [0, 0, 0, -1]] :: int ndarray) ! i) = [data_set, sign_col]
         \<and> norm_index (length example_trajectories) (data_set - 1) = Some k
         \<and> col_index (example_trajectories ! k) (\<bar>sign_col\<bar> - 1) = Inr j
         \<and> times_arr (samples (variables ! i)) = View k 0
         \<and> parse_description example_units (Inr :: string \<Rightarrow> error + string) ([''Time in [s]'', ''R [kOhm]'', ''T [degC]'', ''''] ! i) = Inr (unit, du, d)
         \<and> (case unit of
               ScalarUnit v dim \<Rightarrow>
                 signed_values (samples (variables ! i)) = View k j
                 \<and> negated (samples (variables ! i)) = (sign_col < 0)
             | LambdaUnit g dim \<Rightarrow>
                 (\<exists>Ti ti.
                     create_variables example_units (Inr :: string \<Rightarrow> error + string) example_trajectories [] None
                       (take i (zip [''Time in [s]'', ''R [kOhm]'', ''T [degC]'', '''']
                          (map (take 2) (array_rows (Arr2 4 4 [[1, 1, 0, -1], [2, -3, 0, -1], [2, 2, 0, -1], [0, 0, 0, -1]] :: int ndarray)))))
                       = Inr (Ti, take i variables, ti)
                   \<and> signed_values (samples (variables ! i))
                       = Owned (map g (if sign_col < 0 then map uminus (array_values Ti (View k j))
                                       else array_values Ti (View k j))))
                 \<and> negated (samples (variables ! i)) = False)))"
  using example_run_final
    readsim_row_decoding [OF example_kind example_version example_names example_extract
      example_descriptions example_dataInfo example_run_final]
  by (intro conjI)

theorem readsim_unit_scaling_witness:
  "readsim_body example_units Inr 1 ''time'' ''f.mat'' example_simulation (Strs [''Atrajectory'', ''1.1''])
     = Inr (example_final, example_variables)
   \<and> array_values example_final (View 1 2) = [20000, 21000]
   \<and> (\<exists>rows variables.
       first_two_columns (Arr2 4 4 [[1, 1, 0, -1], [2, -3, 0, -1], [2, 2, 0, -1], [0, 0, 0, -1]] :: int ndarray) = Inr rows
     \<and> create_variables example_units (Inr :: string \<Rightarrow> error + string) example_trajectories [] None (zip [''Time in [s]'', ''R [kOhm]'', ''T [degC]'', ''''] rows)
         = Inr (example_final, variables, Some (times_arr (samples (last variables))))
     \<and> example_variables = dict_set (dict_of_pairs (zip [''Time'', ''R'', ''T'', ''last''] variables)) ''Time''
                  \<lparr>samples = \<lparr>times_arr = times_arr (samples (last variables)),
                              signed_values = times_arr (samples (last variables)),
                              negated = False\<rparr>,
                   dimension = Some ''time'', display_unit = Some ''s'',
                   description = Str ''Time''\<rparr>
     \<and> (\<forall>i<length variables. \<exists>Ti Tn ti data_set sign_col neg tmv k j unit du d.
           rows ! i = [data_set, sign_col]
         \<and> parse_description example_units (Inr :: string \<Rightarrow> error + string) ([''Time in [s]'', ''R [kOhm]'', ''T [degC]'', ''''] ! i) = Inr (unit, du, d)
         \<and> create_variables example_units (Inr :: string \<Rightarrow> error + string) example_trajectories [] None (take i (zip [''Time in [s]'', ''R [kOhm]'', ''T [degC]'', ''''] rows))
             = Inr (Ti, take i variables, ti)
         \<and> create_variables example_units (Inr :: string \<Rightarrow> error + string) example_trajectories [] None (take (Suc i) (zip [''Time in [s]'', ''R [kOhm]'', ''T [degC]'', ''''] rows))
             = Inr (Tn, take (Suc i) variables, Some tmv)
         \<and> (Suc i = length variables \<longrightarrow> Tn = example_final)
         \<and> select_samples Ti data_set sign_col = Inr (neg, tmv, View k j)
         \<and> (case unit of
               LambdaUnit g dim \<Rightarrow>
                 Tn = Ti
                 \<and> variables ! i
                     = \<lparr>samples = \<lparr>times_arr = tmv,
                                   signed_values =
                                     Owned (map g (if neg then map uminus (array_values Ti (View k j))
                                                   else array_values Ti (View k j))),
                                   negated = False\<rparr>,
                        dimension = Some dim, display_unit = Some du, description = Unicode d\<rparr>
             | ScalarUnit v dim \<Rightarrow>
                 Tn = (if v = 1 then Ti else Ti[k := scale_column j v (Ti ! k)])
                 \<and> variables ! i
                     = \<lparr>samples = \<lparr>times_arr = tmv, signed_values = View k j, negated = neg\<rparr>,
                        dimension = Some dim, display_unit = Some du, description = Unicode d\<rparr>
                 \<and> (wf_array (Ti ! k) \<and> v \<noteq> 1
                      \<longrightarrow> array_values Tn (View k j) = map (\<lambda>x. x * v) (array_values Ti (View k j))))))"
proof -
  have v: "array_values example_final (View 1 2) = [20000, 21000]"
    by code_simp
  show ?thesis
    using example_run_final v
      readsim_unit_scaling [OF example_kind example_version example_names example_extract
        example_descriptions example_dataInfo example_run_final]
    by (intro conjI)
qed

lemma example_rows:
  "first_two_columns (Arr2 4 4 [[1, 1, 0, -1], [2, -3, 0, -1], [2, 2, 0, -1], [0, 0, 0, -1]] :: int ndarray)
     = Inr [[1, 1], [2, -3], [2, 2], [0, 0]]"
  by code_simp

lemma example_prefix:
  "create_variables example_units Inr example_trajectories [] None
     (take 3 (zip [''Time in [s]'', ''R [kOhm]'', ''T [degC]'', ''''] [[1, 1], [2, -3], [2, 2], [0, 0]]))
   = Inr (example_final,
          [\<lparr>samples = \<lparr>times_arr = View 0 0, signed_values = View 0 0, negated = False\<rparr>,
            dimension = Some ''1'', display_unit = Some ''s'', description = Unicode ''Time in''\<rparr>,
           \<lparr>samples = \<lparr>times_arr = View 1 0, signed_values = View 1 2, negated = True\<rparr>,
            dimension = Some ''R'', display_unit = Some ''kohm'', description = Unicode ''R''\<rparr>,
           \<lparr>samples = \<lparr>times_arr = View 1 0, signed_values = Owned [283, 284], negated = False\<rparr>,
            dimension = Some ''Theta'', display_unit = Some ''degC'', description = Unicode ''T''\<rparr>],
          Some (View 1 0))"
  by code_simp

lemma example_parse_empty:
  "parse_description example_units Inr '''' = Inr (ScalarUnit 1 ''1'', '''', '''')"
  by (simp add: parse_description_def rstrip_chars_def rsplit1_def replace.simps rstrip_def
        whitespace_def example_units_def)

lemma example_parse_x:
  "parse_description example_units Inr ''x'' = Inr (ScalarUnit 1 ''1'', '''', ''x'')"
  by (simp add: parse_description_def rstrip_chars_def rsplit1_def replace.simps rstrip_def
        whitespace_def example_units_def)

theorem readsim_zero_entries_witness:
  "select_samples example_final 0 0 = Inr (False, View 1 0, View 1 2)
   \<and> create_variables example_units Inr example_trajectories [] None
        (take (Suc 3) (zip [''Time in [s]'', ''R [kOhm]'', ''T [degC]'', '''']
                           [[1, 1], [2, -3], [2, 2], [0, 0]]))
      = Inr (example_final,
          [\<lparr>samples = \<lparr>times_arr = View 0 0, signed_values = View 0 0, negated = False\<rparr>,
            dimension = Some ''1'', display_unit = Some ''s'', description = Unicode ''Time in''\<rparr>,
           \<lparr>samples = \<lparr>times_arr = View 1 0, signed_values = View 1 2, negated = True\<rparr>,
            dimension = Some ''R'', display_unit = Some ''kohm'', description = Unicode ''R''\<rparr>,
           \<lparr>samples = \<lparr>times_arr = View 1 0, signed_values = Owned [283, 284], negated = False\<rparr>,
            dimension = Some ''Theta'', display_unit = Some ''degC'', description = Unicode ''T''\<rparr>]
          @ [\<lparr>samples = \<lparr>times_arr = View 1 0, signed_values = View 1 2, negated = False\<rparr>,
              dimension = Some ''1'', display_unit = Some '''', description = Unicode ''''\<rparr>],
          Some (View 1 0))
   \<and> readsim_body example_units Inr 1 ''time'' ''f.mat''
        [(''name'', Strs [''x'']), (''description'', Strs [''x'']),
         (''dataInfo'', Ints (Arr2 1 4 [[0, 1, 0, -1]]))]
        (Strs [''Atrajectory'', ''1.1'']) = Inl IndexError"
proof -
  have iz: "3 < length (zip [''Time in [s]'', ''R [kOhm]'', ''T [degC]'', '''']
                            [[1, 1], [2, -3], [2, 2], [0, 0 :: int]])"
    by simp
  have row: "[[1, 1], [2, -3], [2, 2], [0, 0 :: int]] ! 3 = [0, 0]"
    by simp
  have p: "parse_description example_units Inr
             ([''Time in [s]'', ''R [kOhm]'', ''T [degC]'', ''''] ! 3) = Inr (ScalarUnit 1 ''1'', '''', '''')"
    using example_parse_empty by simp
  note A = readsim_zero_entries [where k = 1 and r = 2 and c = 3
      and m = "[[0, 10, 20], [1, 11, 21]]" and second_dimension = "''time''" and fname = "''f.mat''",
      OF example_kind example_version example_names example_extract
      example_descriptions example_dataInfo example_rows iz example_prefix row p,
      THEN conjunct1, THEN mp]
  have h: "(0::int) = 0 \<and> norm_index (length example_trajectories) (0 - 1) = Some 1
      \<and> example_trajectories ! 1 = Arr2 2 3 [[0, 10, 20], [1, 11, 21]] \<and> (0::nat) < 3"
    by (simp add: example_trajectories_def norm_index_def)
  note a = A [OF h]
  from a have a1: "select_samples example_final 0 0 = Inr (False, View 1 0, View 1 (3 - 1))"
    by (rule conjunct1)
  from a have a2: "\<forall>v dim. ScalarUnit (1::int) ''1'' = ScalarUnit v dim \<longrightarrow>
      create_variables example_units Inr example_trajectories [] None
        (take (Suc 3) (zip [''Time in [s]'', ''R [kOhm]'', ''T [degC]'', '''']
                           [[1, 1], [2, -3], [2, 2], [0, 0]]))
      = Inr (if v = 1 then example_final
             else example_final[1 := scale_column (3 - 1) v (example_final ! 1)],
          [\<lparr>samples = \<lparr>times_arr = View 0 0, signed_values = View 0 0, negated = False\<rparr>,
            dimension = Some ''1'', display_unit = Some ''s'', description = Unicode ''Time in''\<rparr>,
           \<lparr>samples = \<lparr>times_arr = View 1 0, signed_values = View 1 2, negated = True\<rparr>,
            dimension = Some ''R'', display_unit = Some ''kohm'', description = Unicode ''R''\<rparr>,
           \<lparr>samples = \<lparr>times_arr = View 1 0, signed_values = Owned [283, 284], negated = False\<rparr>,
            dimension = Some ''Theta'', display_unit = Some ''degC'', description = Unicode ''T''\<rparr>]
          @ [\<lparr>samples = \<lparr>times_arr = View 1 0, signed_values = View 1 (3 - 1), negated = False\<rparr>,
              dimension = Some dim, display_unit = Some '''', description = Unicode ''''\<rparr>],
          Some (View 1 0))"
    by (elim conjE)
  have n3: "(3::nat) - 1 = 2" by simp
  have one: "((1::int) = 1) = True" by simp
  note b1 = a1 [unfolded n3]
  note b2 = a2 [rule_format, OF refl, unfolded n3 one if_True]
  have ftc0: "first_two_columns (Arr2 1 4 [[0, 1, 0, -1]] :: int ndarray) = Inr [[0, 1]]"
    by code_simp
  have names0: "get_strs [(''name'', Strs [''x'']), (''description'', Strs [''x'']),
         (''dataInfo'', Ints (Arr2 1 4 [[0, 1, 0, -1 :: int]]))] ''name'' = Inr [''x'']"
    by (simp add: get_strs_def dict_get_def)
  have descs0: "get_strs [(''name'', Strs [''x'']), (''description'', Strs [''x'']),
         (''dataInfo'', Ints (Arr2 1 4 [[0, 1, 0, -1 :: int]]))] ''description'' = Inr [''x'']"
    by (simp add: get_strs_def dict_get_def)
  have info0: "get_ints [(''name'', Strs [''x'']), (''description'', Strs [''x'']),
         (''dataInfo'', Ints (Arr2 1 4 [[0, 1, 0, -1 :: int]]))] ''dataInfo''
       = Inr (Arr2 1 4 [[0, 1, 0, -1]])"
    by (simp add: get_ints_def dict_get_def)
  have extract0: "extract_trajectories (1::int) [(''name'', Strs [''x'']), (''description'', Strs [''x'']),
         (''dataInfo'', Ints (Arr2 1 4 [[0, 1, 0, -1 :: int]]))] 1 [] = Inr ([] :: int ndarray list)"
    by code_simp
  have iz0: "0 < length (zip [''x''] [[0, 1 :: int]])" by simp
  have pre0: "create_variables example_units Inr ([] :: int ndarray list) [] None
                (take 0 (zip [''x''] [[0, 1 :: int]])) = Inr ([], [], None)"
    by simp
  have row0: "[[0, 1 :: int]] ! 0 = [0, 1]" by simp
  have p0: "parse_description example_units Inr ([''x''] ! 0) = Inr (ScalarUnit 1 ''1'', '''', ''x'')"
    using example_parse_x by simp
  note C = readsim_zero_entries [where second_dimension = "''time''" and fname = "''f.mat''",
      OF example_kind example_version names0 extract0 descs0 info0 ftc0 iz0 pre0 row0 p0,
      THEN conjunct2, THEN conjunct2, THEN mp, THEN conjunct2]
  have h0: "(0::int) = 0 \<and> ([] :: int ndarray list) = []" by simp
  note c = C [OF disjI1, OF h0]
  show ?thesis
    using b1 b2 c by (intro conjI)
qed

end
